theory Spec2Isabelle
  imports Main
begin

section \<open>Errors as values\<close>

text \<open>
  A Go \<^verbatim>\<open>error\<close> value is \<open>Failure\<close> with its message; a run-time panic is a value as
  well, so that every way a function can stop is a branch of its model. A function that
  returns \<^verbatim>\<open>(T, error)\<close> or \<^verbatim>\<open>error\<close> returns \<open>error + T\<close> here, with \<open>Inl\<close> for the error.
\<close>

datatype error = Failure string | Panic string

definition bind_res :: "error + 'a \<Rightarrow> ('a \<Rightarrow> error + 'b) \<Rightarrow> error + 'b" where
  "bind_res r f = (case r of Inl e \<Rightarrow> Inl e | Inr x \<Rightarrow> f x)"

definition deref :: "'a option \<Rightarrow> error + 'a" where
  "deref p = (case p of None \<Rightarrow> Inl (Panic ''invalid memory address or nil pointer dereference'')
                      | Some x \<Rightarrow> Inr x)"

lemma bind_res_simps [simp]:
  "bind_res (Inl e) f = Inl e"
  "bind_res (Inr x) f = f x"
  by (simp_all add: bind_res_def)

lemma deref_simps [simp]:
  "deref None = Inl (Panic ''invalid memory address or nil pointer dereference'')"
  "deref (Some x) = Inr x"
  by (simp_all add: deref_def)

lemma bind_res_Inr_iff: "bind_res r f = Inr y \<longleftrightarrow> (\<exists>x. r = Inr x \<and> f x = Inr y)"
  by (cases r) simp_all

lemma deref_Inr_iff: "deref p = Inr x \<longleftrightarrow> p = Some x"
  by (cases p) simp_all

section \<open>Workspace name suggestion (pkg/cmd/workspace/create/creation_data.go)\<close>

text \<open>
  \<^verbatim>\<open>GetSuggestedName\<close> formats its candidates with \<^verbatim>\<open>fmt.Sprintf("%s%d", suggestion, i)\<close>.
  The counter starts at 2 and only grows, so \<^verbatim>\<open>%d\<close> prints a plain decimal numeral
  without sign or padding: \<open>itoa\<close> (which asks \<open>digit_char\<close> for digits below 10
  only). The counter is a natural number here; the lemma
  \<open>GetSuggestedName_counter_bound\<close> below shows that the loop stops at a counter of at
  most \<open>2 + length existingNames\<close>, far from the range where a 64-bit \<^verbatim>\<open>int\<close> would
  wrap.
\<close>

definition digit_char :: "nat \<Rightarrow> char" where
  "digit_char d = ''0123456789'' ! d"

function itoa :: "nat \<Rightarrow> string" where
  "itoa n = (if n < 10 then [digit_char n] else itoa (n div 10) @ [digit_char (n mod 10)])"
  by pat_completeness auto
termination
  by (relation "measure id") auto

declare itoa.simps [simp del]

lemma digit_cases: "a < (10::nat) \<Longrightarrow> a = 0 \<or> a = 1 \<or> a = 2 \<or> a = 3 \<or> a = 4 \<or> a = 5 \<or> a = 6 \<or> a = 7 \<or> a = 8 \<or> a = 9"
  by arith


lemma digit_char_val:
  assumes "a < 10"
  shows "of_char (digit_char a) = 48 + a"
  using digit_cases [OF assms] unfolding digit_char_def by (elim disjE) simp_all

lemma digit_char_inj:
  assumes "a < 10" and "b < 10" and eq: "digit_char a = digit_char b"
  shows "a = b"
proof -
  have "48 + a = (of_char (digit_char a) :: nat)" using assms(1) by (simp only: digit_char_val)
  also have "\<dots> = of_char (digit_char b)" by (simp only: eq)
  also have "\<dots> = 48 + b" using assms(2) by (simp only: digit_char_val)
  finally show ?thesis by simp
qed

lemma itoa_nonempty: "itoa n \<noteq> []"
  by (subst itoa.simps) simp

lemma itoa_small: "n < 10 \<Longrightarrow> itoa n = [digit_char n]"
  using itoa.simps [of n] by simp

lemma itoa_big: "\<not> n < 10 \<Longrightarrow> itoa n = itoa (n div 10) @ [digit_char (n mod 10)]"
  using itoa.simps [of n] by simp

lemma itoa_inj: "itoa n = itoa m \<Longrightarrow> n = m"
proof (induction n arbitrary: m rule: itoa.induct)
  case (1 n)
  show ?case
  proof (cases "n < 10")
    case True
    note n = itoa_small [OF True]
    show ?thesis
    proof (cases "m < 10")
      case mt: True
      from n "1.prems" itoa_small [OF mt] have "digit_char n = digit_char m" by simp
      with True mt show ?thesis by (rule digit_char_inj)
    next
      case False
      from n "1.prems" itoa_big [OF False] itoa_nonempty [of "m div 10"] show ?thesis by simp
    qed
  next
    case False
    note n = itoa_big [OF False]
    show ?thesis
    proof (cases "m < 10")
      case True
      from n "1.prems" itoa_small [OF True] itoa_nonempty [of "n div 10"] show ?thesis by simp
    next
      case mf: False
      from n itoa_big [OF mf] "1.prems" have a: "itoa (n div 10) = itoa (m div 10)"
        and b: "digit_char (n mod 10) = digit_char (m mod 10)" by simp_all
      from "1.IH" [OF False a] have "n div 10 = m div 10" .
      moreover from b have "n mod 10 = m mod 10" by (intro digit_char_inj) simp_all
      ultimately have "n div 10 * 10 + n mod 10 = m div 10 * 10 + m mod 10" by simp
      then show ?thesis by (simp only: div_mult_mod_eq)
    qed
  qed
qed


lemma finite_suffixed: "finite {j. s @ itoa j \<in> set xs}"
proof -
  have "inj (\<lambda>j. s @ itoa j)" by (rule injI) (simp add: itoa_inj)
  then have "finite ((\<lambda>j. s @ itoa j) -` set xs)" by (intro finite_vimageI) simp_all
  then show ?thesis by (simp add: vimage_def)
qed

text \<open>
  The source, lines 189-204:
  \<^verbatim>\<open>
  func GetSuggestedName(initialSuggestion string, existingNames []string) string {
      suggestion := initialSuggestion
      if !slices.Contains(existingNames, suggestion) {
          return suggestion
      } else {
          i := 2
          for {
              newSuggestion := fmt.Sprintf("%s%d", suggestion, i)
              if !slices.Contains(existingNames, newSuggestion) {
                  return newSuggestion
              }
              i++
          }
      }
  }
  \<close>
  The \<^verbatim>\<open>for\<close> loop has no bound of its own; \<open>suggest_from\<close> is that loop, started
  at counter \<open>i\<close>. It is a total function only because its termination is proved:
  the candidates are pairwise distinct (\<open>itoa_inj\<close>), so only finitely many of them
  occur in the list.
\<close>

function suggest_from :: "string \<Rightarrow> string list \<Rightarrow> nat \<Rightarrow> string" where
  "suggest_from s xs i =
     (if s @ itoa i \<notin> set xs then s @ itoa i else suggest_from s xs (i + 1))"
  by pat_completeness auto
termination
proof (relation "measure (\<lambda>(s, xs, i). card {j. i \<le> j \<and> s @ itoa j \<in> set xs})")
  show "wf (measure (\<lambda>(s, xs, i). card {j. i \<le> j \<and> s @ itoa j \<in> set xs}))" by simp
next
  fix s :: string and xs :: "string list" and i :: nat
  assume "\<not> s @ itoa i \<notin> set xs"
  then have mem: "s @ itoa i \<in> set xs" by simp
  have fin: "finite {j. i \<le> j \<and> s @ itoa j \<in> set xs}"
    by (rule finite_subset [OF _ finite_suffixed [of s xs]]) auto
  have "{j. i + 1 \<le> j \<and> s @ itoa j \<in> set xs} \<subseteq> {j. i \<le> j \<and> s @ itoa j \<in> set xs}"
    by auto
  moreover have "i \<in> {j. i \<le> j \<and> s @ itoa j \<in> set xs} - {j. i + 1 \<le> j \<and> s @ itoa j \<in> set xs}"
    using mem by simp
  ultimately have "{j. i + 1 \<le> j \<and> s @ itoa j \<in> set xs} \<subset> {j. i \<le> j \<and> s @ itoa j \<in> set xs}"
    by blast
  then have "card {j. i + 1 \<le> j \<and> s @ itoa j \<in> set xs} < card {j. i \<le> j \<and> s @ itoa j \<in> set xs}"
    by (rule psubset_card_mono [OF fin])
  then show "((s, xs, i + 1), (s, xs, i)) \<in> measure (\<lambda>(s, xs, i). card {j. i \<le> j \<and> s @ itoa j \<in> set xs})"
    by simp
qed

declare suggest_from.simps [simp del]

definition GetSuggestedName :: "string \<Rightarrow> string list \<Rightarrow> string" where
  "GetSuggestedName initialSuggestion existingNames =
     (if initialSuggestion \<notin> set existingNames then initialSuggestion
      else suggest_from initialSuggestion existingNames 2)"

lemma suggest_from_spec:
  "\<exists>k \<ge> i. suggest_from s xs i = s @ itoa k \<and> s @ itoa k \<notin> set xs
      \<and> (\<forall>j. i \<le> j \<and> j < k \<longrightarrow> s @ itoa j \<in> set xs)"
proof (induction s xs i rule: suggest_from.induct)
  case (1 s xs i)
  show ?case
  proof (cases "s @ itoa i \<in> set xs")
    case False
    then have "suggest_from s xs i = s @ itoa i" using suggest_from.simps [of s xs i] by simp
    with False show ?thesis by (intro exI [of _ i]) auto
  next
    case True
    then have eq: "suggest_from s xs i = suggest_from s xs (i + 1)"
      using suggest_from.simps [of s xs i] by simp
    from True "1.IH" obtain k where k: "i + 1 \<le> k" "suggest_from s xs (i + 1) = s @ itoa k"
      "s @ itoa k \<notin> set xs" "\<forall>j. i + 1 \<le> j \<and> j < k \<longrightarrow> s @ itoa j \<in> set xs"
      by auto
    have "\<forall>j. i \<le> j \<and> j < k \<longrightarrow> s @ itoa j \<in> set xs"
    proof (intro allI impI)
      fix j assume j: "i \<le> j \<and> j < k"
      show "s @ itoa j \<in> set xs"
      proof (cases "j = i")
        case True with \<open>s @ itoa i \<in> set xs\<close> show ?thesis by simp
      next
        case False with j k(4) show ?thesis by simp
      qed
    qed
    with k eq show ?thesis by (intro exI [of _ k]) simp
  qed
qed

lemma suffix_index_bound:
  assumes "\<forall>j. i \<le> j \<and> j < k \<longrightarrow> s @ itoa j \<in> set xs"
  shows "k \<le> i + length xs"
proof -
  have "inj_on (\<lambda>j. s @ itoa j) {i..<k}" by (rule inj_onI) (simp add: itoa_inj)
  moreover have "(\<lambda>j. s @ itoa j) ` {i..<k} \<subseteq> set xs" using assms by auto
  ultimately have "card {i..<k} \<le> card (set xs)"
    by (metis card_image card_mono List.finite_set)
  also have "\<dots> \<le> length xs" by (rule card_length)
  finally show ?thesis by simp
qed

lemma GetSuggestedName_counter_bound:
  assumes "s \<in> set xs"
  shows "\<exists>i. 2 \<le> i \<and> i \<le> 2 + length xs \<and> GetSuggestedName s xs = s @ itoa i"
proof -
  from suggest_from_spec [of 2 s xs] obtain k where k: "2 \<le> k"
    "suggest_from s xs 2 = s @ itoa k" "\<forall>j. 2 \<le> j \<and> j < k \<longrightarrow> s @ itoa j \<in> set xs"
    by blast
  from suffix_index_bound [OF k(3)] have "k \<le> 2 + length xs" .
  with k assms show ?thesis by (auto simp: GetSuggestedName_def)
qed

text \<open>
  Claim C8. For every initial suggestion \<open>s\<close> and every list of existing names,
  \<open>GetSuggestedName\<close> returns (the function is total, its loop terminates) a name
  that is not in the list; the name is \<open>s\<close> itself when \<open>s\<close> is not in the list, and
  otherwise \<open>s\<close> followed by the least counter \<open>i \<ge> 2\<close> whose suffixed name is
  absent: every smaller counter from 2 on gives a name of the list.
\<close>

theorem GetSuggestedName_spec:
  "GetSuggestedName s xs \<notin> set xs
   \<and> (s \<notin> set xs \<longrightarrow> GetSuggestedName s xs = s)
   \<and> (s \<in> set xs \<longrightarrow>
        (\<exists>i \<ge> 2. GetSuggestedName s xs = s @ itoa i
           \<and> (\<forall>j. 2 \<le> j \<and> j < i \<longrightarrow> s @ itoa j \<in> set xs)))"
  using suggest_from_spec [of 2 s xs] by (auto simp: GetSuggestedName_def)

theorem GetSuggestedName_spec_witness:
  "GetSuggestedName ''ws'' [''ws'', ''ws3'', ''ws2''] = ''ws4''
   \<and> GetSuggestedName ''ws'' [''ws'', ''ws3'', ''ws2''] \<notin> set [''ws'', ''ws3'', ''ws2'']
   \<and> GetSuggestedName ''api'' [''ws'', ''ws2''] = ''api''"
  using GetSuggestedName_spec [of "''ws''" "[''ws'', ''ws3'', ''ws2'']"]
  by (simp add: GetSuggestedName_def suggest_from.simps itoa.simps digit_char_def)

section \<open>Workspace DTO from command-line flags (pkg/cmd/workspace/create/creation_data.go)\<close>

text \<open>
  \<^verbatim>\<open>GetCreateWorkspaceDtoFromFlags\<close> (lines 259-308) reads its flags through pointers. A
  pointer is an \<open>option\<close> here and dereferencing \<^verbatim>\<open>nil\<close> is the panic Go raises. Of
  \<^verbatim>\<open>apiclient.CreateWorkspaceDTO\<close> and \<^verbatim>\<open>apiclient.BuildConfig\<close> the records keep the
  fields this function assigns; every other field keeps its zero value.
\<close>

record DevcontainerConfig =
  FilePath :: string

record BuildConfig =
  Devcontainer :: "DevcontainerConfig option"

record CreateWorkspaceDTO =
  dto_GitProviderConfigId :: "string option"
  dto_BuildConfig :: "BuildConfig option"
  dto_Image :: "string option"
  dto_User :: "string option"
  dto_EnvVars :: "string \<rightharpoonup> string"
  dto_Labels :: "string \<rightharpoonup> string"

record WorkspaceConfigurationFlags =
  Builder :: "string option"
  CustomImage :: "string option"
  CustomImageUser :: "string option"
  DevcontainerPath :: "string option"
  EnvVars :: "string list option"
  GitProviderConfig :: "string option"
  Labels :: "string list option"

text \<open>
  The constants \<^verbatim>\<open>views_util.DEVCONTAINER\<close>, \<^verbatim>\<open>views_util.NONE\<close> and
  \<^verbatim>\<open>create.DEVCONTAINER_FILEPATH\<close> are declared in other packages, and so is
  \<^verbatim>\<open>cmd_common.MapKeyValue\<close>: they are parameters of the model, and what is proved
  holds for every value of them.
\<close>

record build_constants =
  DEVCONTAINER :: string
  NONE :: string
  DEVCONTAINER_FILEPATH :: string

text \<open>
  The two conditions of lines 265 and 276 with Go's left-to-right, short-circuit
  evaluation of \<^verbatim>\<open>||\<close>: an operand is dereferenced only when the ones before it are false.
  \<^verbatim>\<open>
  if *flags.Builder == views_util.DEVCONTAINER || *flags.DevcontainerPath != "" { ... }
  if *flags.Builder == views_util.NONE || *flags.CustomImage != "" || *flags.CustomImageUser != "" {
      workspace.BuildConfig = nil
      if *flags.CustomImage != "" || *flags.CustomImageUser != "" {
          workspace.Image = flags.CustomImage
          workspace.User = flags.CustomImageUser
      }
  }
  \<close>
\<close>

definition devcontainer_requested :: "build_constants \<Rightarrow> WorkspaceConfigurationFlags \<Rightarrow> error + bool" where
  "devcontainer_requested k flags =
     bind_res (deref (Builder flags)) (\<lambda>b.
       if b = DEVCONTAINER k then Inr True
       else bind_res (deref (DevcontainerPath flags)) (\<lambda>p. Inr (p \<noteq> [])))"

definition custom_image_given :: "WorkspaceConfigurationFlags \<Rightarrow> error + bool" where
  "custom_image_given flags =
     bind_res (deref (CustomImage flags)) (\<lambda>i.
       if i \<noteq> [] then Inr True
       else bind_res (deref (CustomImageUser flags)) (\<lambda>u. Inr (u \<noteq> [])))"

definition no_builder_requested :: "build_constants \<Rightarrow> WorkspaceConfigurationFlags \<Rightarrow> error + bool" where
  "no_builder_requested k flags =
     bind_res (deref (Builder flags)) (\<lambda>b.
       if b = NONE k then Inr True else custom_image_given flags)"

definition set_devcontainer ::
  "build_constants \<Rightarrow> WorkspaceConfigurationFlags \<Rightarrow> CreateWorkspaceDTO \<Rightarrow> error + CreateWorkspaceDTO" where
  "set_devcontainer k flags workspace =
     bind_res (devcontainer_requested k flags) (\<lambda>c.
       if c then
         bind_res (deref (DevcontainerPath flags)) (\<lambda>p.
           let devcontainerFilePath = (if p \<noteq> [] then p else DEVCONTAINER_FILEPATH k) in
           bind_res (deref (dto_BuildConfig workspace)) (\<lambda>bc.
             Inr (workspace\<lparr>dto_BuildConfig :=
                    Some (bc\<lparr>Devcontainer := Some \<lparr>FilePath = devcontainerFilePath\<rparr>\<rparr>)\<rparr>)))
       else Inr workspace)"

definition set_custom_image ::
  "build_constants \<Rightarrow> WorkspaceConfigurationFlags \<Rightarrow> CreateWorkspaceDTO \<Rightarrow> error + CreateWorkspaceDTO" where
  "set_custom_image k flags workspace =
     bind_res (no_builder_requested k flags) (\<lambda>c.
       if c then
         bind_res (custom_image_given flags) (\<lambda>c'.
           if c' then Inr (workspace\<lparr>dto_BuildConfig := None,
                             dto_Image := CustomImage flags, dto_User := CustomImageUser flags\<rparr>)
           else Inr (workspace\<lparr>dto_BuildConfig := None\<rparr>))
       else Inr workspace)"

definition key_values ::
  "(string list \<Rightarrow> error + (string \<rightharpoonup> string)) \<Rightarrow> string list option \<Rightarrow> error + (string \<rightharpoonup> string)" where
  "key_values MapKeyValue flag = (case flag of None \<Rightarrow> Inr Map.empty | Some kvs \<Rightarrow> MapKeyValue kvs)"

definition GetCreateWorkspaceDtoFromFlags ::
  "build_constants \<Rightarrow> (string list \<Rightarrow> error + (string \<rightharpoonup> string)) \<Rightarrow> WorkspaceConfigurationFlags
     \<Rightarrow> error + CreateWorkspaceDTO" where
  "GetCreateWorkspaceDtoFromFlags k MapKeyValue workspaceConfigurationFlags =
     bind_res (set_devcontainer k workspaceConfigurationFlags
        \<lparr>dto_GitProviderConfigId = GitProviderConfig workspaceConfigurationFlags,
         dto_BuildConfig = Some \<lparr>Devcontainer = None\<rparr>,
         dto_Image = None, dto_User = None, dto_EnvVars = Map.empty, dto_Labels = Map.empty\<rparr>)
     (\<lambda>workspace. bind_res (set_custom_image k workspaceConfigurationFlags workspace)
     (\<lambda>workspace. bind_res (key_values MapKeyValue (EnvVars workspaceConfigurationFlags))
     (\<lambda>envVars. bind_res (key_values MapKeyValue (Labels workspaceConfigurationFlags))
     (\<lambda>labels. Inr (workspace\<lparr>dto_EnvVars := envVars, dto_Labels := labels\<rparr>)))))"

text \<open>
  The vocabulary of the claim: a flag is non-empty when it points to a string other than
  \<^verbatim>\<open>""\<close>; the settings are overridden when the builder is \<^verbatim>\<open>NONE\<close> or a custom image or
  custom image user is given; \<open>devcontainer_of\<close> is the devcontainer configuration that
  lines 265-274 assign.
\<close>

definition non_empty :: "string option \<Rightarrow> bool" where
  "non_empty p = (case p of None \<Rightarrow> False | Some s \<Rightarrow> s \<noteq> [])"

definition overridden :: "build_constants \<Rightarrow> WorkspaceConfigurationFlags \<Rightarrow> bool" where
  "overridden k flags \<longleftrightarrow>
     Builder flags = Some (NONE k) \<or> non_empty (CustomImage flags) \<or> non_empty (CustomImageUser flags)"

definition devcontainer_of :: "build_constants \<Rightarrow> WorkspaceConfigurationFlags \<Rightarrow> DevcontainerConfig option" where
  "devcontainer_of k flags =
     (if non_empty (DevcontainerPath flags)
      then map_option (\<lambda>p. \<lparr>FilePath = p\<rparr>) (DevcontainerPath flags)
      else if Builder flags = Some (DEVCONTAINER k) then Some \<lparr>FilePath = DEVCONTAINER_FILEPATH k\<rparr>
      else None)"

lemma no_builder_requested_iff:
  "no_builder_requested k flags = Inr c \<Longrightarrow> c = overridden k flags"
  by (auto simp: no_builder_requested_def custom_image_given_def overridden_def non_empty_def
      bind_res_Inr_iff deref_Inr_iff split: if_splits)

lemma set_custom_image_BuildConfig:
  assumes "set_custom_image k flags w = Inr w'"
  shows "dto_BuildConfig w' = (if overridden k flags then None else dto_BuildConfig w)"
proof -
  from assms obtain c where c: "no_builder_requested k flags = Inr c"
    and r: "(if c then bind_res (custom_image_given flags) (\<lambda>c'.
               if c' then Inr (w\<lparr>dto_BuildConfig := None,
                             dto_Image := CustomImage flags, dto_User := CustomImageUser flags\<rparr>)
               else Inr (w\<lparr>dto_BuildConfig := None\<rparr>))
             else Inr w) = Inr w'"
    unfolding set_custom_image_def bind_res_Inr_iff by blast
  from no_builder_requested_iff [OF c] have ov: "c = overridden k flags" .
  show ?thesis
  proof (cases c)
    case False
    with r have "w' = w" by simp
    with False ov show ?thesis by simp
  next
    case True
    with r have "dto_BuildConfig w' = None"
      by (auto simp: bind_res_Inr_iff split: if_splits)
    with True ov show ?thesis by simp
  qed
qed

lemma devcontainer_requested_iff:
  "devcontainer_requested k flags = Inr c \<Longrightarrow>
   c = (Builder flags = Some (DEVCONTAINER k) \<or> non_empty (DevcontainerPath flags))"
  by (auto simp: devcontainer_requested_def non_empty_def bind_res_Inr_iff deref_Inr_iff
      split: if_splits)

lemma set_devcontainer_BuildConfig:
  assumes "set_devcontainer k flags w = Inr w'"
    and w: "dto_BuildConfig w = Some \<lparr>Devcontainer = None\<rparr>"
  shows "dto_BuildConfig w' = Some \<lparr>Devcontainer = devcontainer_of k flags\<rparr>"
proof -
  from assms(1) obtain c where c: "devcontainer_requested k flags = Inr c"
    and r: "(if c then
         bind_res (deref (DevcontainerPath flags)) (\<lambda>p.
           let devcontainerFilePath = (if p \<noteq> [] then p else DEVCONTAINER_FILEPATH k) in
           bind_res (deref (dto_BuildConfig w)) (\<lambda>bc.
             Inr (w\<lparr>dto_BuildConfig :=
                    Some (bc\<lparr>Devcontainer := Some \<lparr>FilePath = devcontainerFilePath\<rparr>\<rparr>)\<rparr>)))
       else Inr w) = Inr w'"
    unfolding set_devcontainer_def bind_res_Inr_iff by blast
  note req = devcontainer_requested_iff [OF c]
  show ?thesis
  proof (cases c)
    case False
    with r have "w' = w" by simp
    with False req w show ?thesis by (simp add: devcontainer_of_def)
  next
    case True
    with r obtain p where p: "DevcontainerPath flags = Some p"
      and w': "w' = w\<lparr>dto_BuildConfig := Some \<lparr>Devcontainer =
                 Some \<lparr>FilePath = (if p \<noteq> [] then p else DEVCONTAINER_FILEPATH k)\<rparr>\<rparr>\<rparr>"
      by (auto simp: bind_res_Inr_iff deref_Inr_iff Let_def w)
    from True req p have "p = [] \<Longrightarrow> Builder flags = Some (DEVCONTAINER k)"
      by (simp add: non_empty_def)
    with w' p show ?thesis by (simp add: devcontainer_of_def non_empty_def)
  qed
qed

lemma GetCreateWorkspaceDtoFromFlags_BuildConfig_eq:
  assumes "GetCreateWorkspaceDtoFromFlags k MapKeyValue flags = Inr dto"
  shows "dto_BuildConfig dto =
           (if overridden k flags then None else Some \<lparr>Devcontainer = devcontainer_of k flags\<rparr>)"
proof -
  from assms obtain w1 w2 envVars labels where
    w1: "set_devcontainer k flags
          \<lparr>dto_GitProviderConfigId = GitProviderConfig flags,
           dto_BuildConfig = Some \<lparr>Devcontainer = None\<rparr>,
           dto_Image = None, dto_User = None, dto_EnvVars = Map.empty, dto_Labels = Map.empty\<rparr> = Inr w1"
    and w2: "set_custom_image k flags w1 = Inr w2"
    and dto: "dto = w2\<lparr>dto_EnvVars := envVars, dto_Labels := labels\<rparr>"
    unfolding GetCreateWorkspaceDtoFromFlags_def bind_res_Inr_iff by auto
  from set_devcontainer_BuildConfig [OF w1]
  have "dto_BuildConfig w1 = Some \<lparr>Devcontainer = devcontainer_of k flags\<rparr>" by simp
  with set_custom_image_BuildConfig [OF w2] dto show ?thesis by simp
qed

text \<open>
  The function does return a DTO when the four pointers it dereferences are set and
  \<^verbatim>\<open>MapKeyValue\<close> accepts the two lists, so the statement below is about real results.
\<close>

lemma GetCreateWorkspaceDtoFromFlags_returns:
  assumes "Builder flags = Some b" "DevcontainerPath flags = Some p"
    "CustomImage flags = Some i" "CustomImageUser flags = Some u"
    "key_values MapKeyValue (EnvVars flags) = Inr ev" "key_values MapKeyValue (Labels flags) = Inr ls"
  shows "\<exists>dto. GetCreateWorkspaceDtoFromFlags k MapKeyValue flags = Inr dto"
  using assms
  by (simp add: GetCreateWorkspaceDtoFromFlags_def set_devcontainer_def set_custom_image_def
      devcontainer_requested_def no_builder_requested_def custom_image_given_def Let_def)

text \<open>
  Claim C9. In every DTO that \<open>GetCreateWorkspaceDtoFromFlags\<close> returns, the no-builder
  and custom-image settings win over the devcontainer settings: when the builder flag is
  \<^verbatim>\<open>NONE\<close>, or the custom image or the custom image user is non-empty, the build
  configuration is nil, whatever devcontainer path was supplied and assigned first; a
  build configuration with a devcontainer entry is returned only when none of the three
  holds, and then it is the one lines 265-274 assigned.
\<close>

theorem GetCreateWorkspaceDtoFromFlags_override:
  assumes "GetCreateWorkspaceDtoFromFlags k MapKeyValue flags = Inr dto"
  shows "(overridden k flags \<longrightarrow> dto_BuildConfig dto = None)
       \<and> (\<not> overridden k flags \<longrightarrow>
            dto_BuildConfig dto = Some \<lparr>Devcontainer = devcontainer_of k flags\<rparr>)
       \<and> ((\<exists>bc d. dto_BuildConfig dto = Some bc \<and> Devcontainer bc = Some d) \<longrightarrow>
            \<not> overridden k flags)"
proof (intro conjI impI)
  assume "overridden k flags"
  with GetCreateWorkspaceDtoFromFlags_BuildConfig_eq [OF assms]
  show "dto_BuildConfig dto = None" by simp
next
  assume "\<not> overridden k flags"
  with GetCreateWorkspaceDtoFromFlags_BuildConfig_eq [OF assms]
  show "dto_BuildConfig dto = Some \<lparr>Devcontainer = devcontainer_of k flags\<rparr>" by simp
next
  assume "\<exists>bc d. dto_BuildConfig dto = Some bc \<and> Devcontainer bc = Some d"
  then obtain bc where "dto_BuildConfig dto = Some bc" by blast
  with GetCreateWorkspaceDtoFromFlags_BuildConfig_eq [OF assms]
  show "\<not> overridden k flags" by (simp split: if_splits)
qed

theorem GetCreateWorkspaceDtoFromFlags_override_witness:
  "(case GetCreateWorkspaceDtoFromFlags
           \<lparr>DEVCONTAINER = ''devcontainer'', NONE = ''none'',
            DEVCONTAINER_FILEPATH = ''.devcontainer/devcontainer.json''\<rparr>
           (\<lambda>kvs. Inr Map.empty)
           \<lparr>Builder = Some ''none'', CustomImage = Some [], CustomImageUser = Some [],
            DevcontainerPath = Some ''.devcontainer/web.json'', EnvVars = None,
            GitProviderConfig = None, Labels = None\<rparr>
    of Inl e \<Rightarrow> False | Inr dto \<Rightarrow> dto_BuildConfig dto = None)
   \<and> (case GetCreateWorkspaceDtoFromFlags
           \<lparr>DEVCONTAINER = ''devcontainer'', NONE = ''none'',
            DEVCONTAINER_FILEPATH = ''.devcontainer/devcontainer.json''\<rparr>
           (\<lambda>kvs. Inr Map.empty)
           \<lparr>Builder = Some ''auto'', CustomImage = Some [], CustomImageUser = Some [],
            DevcontainerPath = Some ''.devcontainer/web.json'', EnvVars = None,
            GitProviderConfig = None, Labels = None\<rparr>
    of Inl e \<Rightarrow> False
     | Inr dto \<Rightarrow> dto_BuildConfig dto
         = Some \<lparr>Devcontainer = Some \<lparr>FilePath = ''.devcontainer/web.json''\<rparr>\<rparr>)"
proof -
  let ?k = "\<lparr>DEVCONTAINER = ''devcontainer'', NONE = ''none'',
            DEVCONTAINER_FILEPATH = ''.devcontainer/devcontainer.json''\<rparr>"
  let ?m = "\<lambda>kvs :: string list. Inr Map.empty :: error + (string \<rightharpoonup> string)"
  let ?f = "\<lparr>Builder = Some ''none'', CustomImage = Some [], CustomImageUser = Some [],
            DevcontainerPath = Some ''.devcontainer/web.json'', EnvVars = None,
            GitProviderConfig = None, Labels = None\<rparr>"
  let ?g = "\<lparr>Builder = Some ''auto'', CustomImage = Some [], CustomImageUser = Some [],
            DevcontainerPath = Some ''.devcontainer/web.json'', EnvVars = None,
            GitProviderConfig = None, Labels = None\<rparr>"
  have "\<exists>dto. GetCreateWorkspaceDtoFromFlags ?k ?m ?f = Inr dto"
    by (rule GetCreateWorkspaceDtoFromFlags_returns) (simp_all add: key_values_def)
  then obtain dto where f: "GetCreateWorkspaceDtoFromFlags ?k ?m ?f = Inr dto" ..
  have "\<exists>dto. GetCreateWorkspaceDtoFromFlags ?k ?m ?g = Inr dto"
    by (rule GetCreateWorkspaceDtoFromFlags_returns) (simp_all add: key_values_def)
  then obtain dto' where g: "GetCreateWorkspaceDtoFromFlags ?k ?m ?g = Inr dto'" ..
  have "overridden ?k ?f" by (simp add: overridden_def)
  with GetCreateWorkspaceDtoFromFlags_override [OF f] have "dto_BuildConfig dto = None" by blast
  moreover have "\<not> overridden ?k ?g" by (simp add: overridden_def non_empty_def)
  with GetCreateWorkspaceDtoFromFlags_override [OF g]
  have "dto_BuildConfig dto' = Some \<lparr>Devcontainer = devcontainer_of ?k ?g\<rparr>" by blast
  then have "dto_BuildConfig dto'
      = Some \<lparr>Devcontainer = Some \<lparr>FilePath = ''.devcontainer/web.json''\<rparr>\<rparr>"
    by (simp add: devcontainer_of_def non_empty_def)
  ultimately show ?thesis using f g by simp
qed

section \<open>The SQLite connection (pkg/db/connection.go)\<close>

text \<open>
  \<^verbatim>\<open>
  var _db *gorm.DB

  func GetSQLiteConnection(dbPath string) *gorm.DB {
      if _db != nil {
          return _db
      }
      ...
      db, err := gorm.Open(sqlite.Open(dbPath), &gorm.Config{Logger: newLogger})
      if err != nil {
          panic("failed to connect database")
      }
      sqlDB, err := db.DB()
      if err != nil {
          panic("failed to connect database")
      }
      sqlDB.SetMaxOpenConns(1)
      _db = db
      return _db
  }
  \<close>
  The state is the package variable \<^verbatim>\<open>_db\<close> (\<open>pkg_db\<close>; a name cannot start with an
  underscore here) and the connection limits set so far. \<^verbatim>\<open>gorm.Open\<close> and \<^verbatim>\<open>db.DB\<close>
  belong to libraries: what they answer is a parameter, \<open>'h\<close> the type of the handles
  and \<open>'s\<close> that of the connection pools. Log messages are left out. The calls of one
  process are taken one after the other; the function has no lock.
\<close>

record ('h, 's) connection_state =
  pkg_db :: "'h option"
  conn_limits :: "('s \<times> nat) list"

definition GetSQLiteConnection ::
  "(string \<Rightarrow> error + 'h) \<Rightarrow> ('h \<Rightarrow> error + 's) \<Rightarrow> string \<Rightarrow> ('h, 's) connection_state
     \<Rightarrow> (error + 'h) \<times> ('h, 's) connection_state" where
  "GetSQLiteConnection gorm_Open DB dbPath st =
     (case pkg_db st of
        Some db \<Rightarrow> (Inr db, st)
      | None \<Rightarrow>
          (case gorm_Open dbPath of
             Inl err \<Rightarrow> (Inl (Panic ''failed to connect database''), st)
           | Inr db \<Rightarrow>
               (case DB db of
                  Inl err \<Rightarrow> (Inl (Panic ''failed to connect database''), st)
                | Inr sqlDB \<Rightarrow>
                    (Inr db, st\<lparr>conn_limits := conn_limits st @ [(sqlDB, 1)],
                                pkg_db := Some db\<rparr>))))"

lemma GetSQLiteConnection_cached:
  "pkg_db st = Some h \<Longrightarrow> GetSQLiteConnection gorm_Open DB dbPath st = (Inr h, st)"
  by (simp add: GetSQLiteConnection_def)

lemma GetSQLiteConnection_first:
  assumes "pkg_db st = None" "GetSQLiteConnection gorm_Open DB dbPath st = (Inr h, st')"
  shows "gorm_Open dbPath = Inr h \<and> pkg_db st' = Some h"
  using assms by (auto simp: GetSQLiteConnection_def split: sum.splits)

lemma GetSQLiteConnection_later_state:
  "pkg_db st = Some h \<Longrightarrow> fold (\<lambda>p s. snd (GetSQLiteConnection gorm_Open DB p s)) ps st = st"
  by (induction ps) (simp_all add: GetSQLiteConnection_cached)

text \<open>
  Claim C10. Let the first call of a process (\<^verbatim>\<open>_db\<close> is still nil) return a handle.
  Then the handle is the one \<^verbatim>\<open>gorm.Open\<close> gave for the path of that call, and it is
  cached: after any number of further calls, with any paths \<open>ps\<close>, a call with any path
  \<open>p\<close> returns the same handle and leaves the state as it is. It does so whatever
  \<^verbatim>\<open>gorm.Open\<close> and \<^verbatim>\<open>db.DB\<close> would answer now, so the path is not looked at and nothing
  is opened.
\<close>

theorem GetSQLiteConnection_memoized:
  assumes fresh: "pkg_db st = None"
    and first: "GetSQLiteConnection gorm_Open DB dbPath st = (Inr h, st')"
  shows "gorm_Open dbPath = Inr h
       \<and> pkg_db st' = Some h
       \<and> (\<forall>gorm_Open' DB' ps p.
            GetSQLiteConnection gorm_Open' DB' p
              (fold (\<lambda>q s. snd (GetSQLiteConnection gorm_Open' DB' q s)) ps st') = (Inr h, st'))"
proof -
  from GetSQLiteConnection_first [OF fresh first]
  have opened: "gorm_Open dbPath = Inr h" and cached: "pkg_db st' = Some h" by simp_all
  have "GetSQLiteConnection gorm_Open' DB' p
          (fold (\<lambda>q s. snd (GetSQLiteConnection gorm_Open' DB' q s)) ps st') = (Inr h, st')"
    for gorm_Open' :: "string \<Rightarrow> error + 'a" and DB' :: "'a \<Rightarrow> error + 'b" and ps p
    using cached by (simp add: GetSQLiteConnection_later_state GetSQLiteConnection_cached)
  with opened cached show ?thesis by blast
qed

theorem GetSQLiteConnection_memoized_witness:
  "GetSQLiteConnection (\<lambda>p. Inl (Failure ''unable to open database file'')) (\<lambda>h. Inr h)
     ''/tmp/other.db''
     (snd (GetSQLiteConnection (\<lambda>p. Inr p) (\<lambda>h. Inr h) ''/home/daytona/.config/daytona/db''
        \<lparr>pkg_db = None, conn_limits = []\<rparr>))
   = (Inr ''/home/daytona/.config/daytona/db'',
      \<lparr>pkg_db = Some ''/home/daytona/.config/daytona/db'',
       conn_limits = [(''/home/daytona/.config/daytona/db'', 1)]\<rparr>)"
proof -
  let ?st = "\<lparr>pkg_db = None, conn_limits = []\<rparr> :: (string, string) connection_state"
  let ?st' = "\<lparr>pkg_db = Some ''/home/daytona/.config/daytona/db'',
       conn_limits = [(''/home/daytona/.config/daytona/db'', 1::nat)]\<rparr>"
  have fresh: "pkg_db ?st = None" by simp
  have first: "GetSQLiteConnection (\<lambda>p. Inr p) (\<lambda>h. Inr h) ''/home/daytona/.config/daytona/db'' ?st
      = (Inr ''/home/daytona/.config/daytona/db'', ?st')"
    by (simp add: GetSQLiteConnection_def)
  from GetSQLiteConnection_memoized [OF fresh first]
  have "GetSQLiteConnection (\<lambda>p. Inl (Failure ''unable to open database file'')) (\<lambda>h. Inr h)
      ''/tmp/other.db''
      (fold (\<lambda>q s. snd (GetSQLiteConnection
          (\<lambda>p. Inl (Failure ''unable to open database file'')) (\<lambda>h. Inr h) q s)) [] ?st')
      = (Inr ''/home/daytona/.config/daytona/db'', ?st')"
    by blast
  with first show ?thesis by simp
qed

section \<open>UID/GID reconciliation in the clone container (pkg/docker, lines 162-242)\<close>

subsection \<open>The user database as text\<close>

text \<open>
  \<^verbatim>\<open>/etc/passwd\<close> and \<^verbatim>\<open>/etc/group\<close> are lists of lines. Apart from the name and the
  ids spliced into them and a final \<^verbatim>\<open>.*\<close>, the patterns of \<^verbatim>\<open>UPDATE_UID_GID_SCRIPT\<close>
  are built from \<^verbatim>\<open>[^:]*\<close> and \<^verbatim>\<open>:\<close>, so they read a line as its colon-separated
  fields. \<open>split_where p\<close> cuts a text at every character that satisfies \<open>p\<close> (it never
  returns the empty list, so its last case is not reached); \<open>split_colon\<close> cuts a line
  at its colons and \<open>join_colon\<close> puts it together again. \<open>ends_with f s\<close> says that the
  field \<open>f\<close> ends in the text \<open>s\<close>.
\<close>

fun split_where :: "(char \<Rightarrow> bool) \<Rightarrow> string \<Rightarrow> string list" where
  "split_where p [] = [[]]"
| "split_where p (c # cs) =
     (if p c then [] # split_where p cs
      else (case split_where p cs of f # fs \<Rightarrow> (c # f) # fs | [] \<Rightarrow> [[c]]))"

definition split_colon :: "string \<Rightarrow> string list" where
  "split_colon l = split_where (\<lambda>c. c = CHR '':'') l"

fun join_colon :: "string list \<Rightarrow> string" where
  "join_colon [] = []"
| "join_colon [f] = f"
| "join_colon (f # g # fs) = f @ CHR '':'' # join_colon (g # fs)"

definition ends_with :: "string \<Rightarrow> string \<Rightarrow> bool" where
  "ends_with f s \<longleftrightarrow> length s \<le> length f \<and> drop (length f - length s) f = s"

subsection \<open>What sed prints\<close>

text \<open>
  \<^verbatim>\<open>
  sed -n "s/${REMOTE_USER}:[^:]*:\([^:]*\):\([^:]*\):[^:]*:\([^:]*\).*/OLD_UID=\1;OLD_GID=\2;HOME_FOLDER=\3/p" /etc/passwd
  sed -n "s/\([^:]*\):[^:]*:${NEW_UID}:.*/EXISTING_USER=\1/p" /etc/passwd
  sed -n "s/\([^:]*\):[^:]*:${NEW_GID}:.*/EXISTING_GROUP=\1/p" /etc/group
  \<close>
  No pattern is anchored, and sed takes the leftmost match. The first pattern matches in
  a line at the first field that ends in \<^verbatim>\<open>REMOTE_USER\<close> and has five fields after it.
  The second and third match at the first field whose next but one field is the id and
  is followed by a colon; the match then starts with that field. The match runs to the
  end of the line, and sed prints the line with the match replaced: the text before the
  match (\<open>pre\<close>) stays in front of the replacement. \<open>sed_n\<close> collects the lines printed
  for a file.
\<close>

fun sed_user :: "string \<Rightarrow> string \<Rightarrow> string list \<Rightarrow> string option" where
  "sed_user ru pre [] = None"
| "sed_user ru pre (f # fs) =
     (if ends_with f ru \<and> 5 \<le> length fs
      then Some (pre @ take (length f - length ru) f
                  @ ''OLD_UID='' @ fs ! 1 @ '';OLD_GID='' @ fs ! 2 @ '';HOME_FOLDER='' @ fs ! 4)
      else sed_user ru (pre @ f @ '':'') fs)"

fun sed_owner :: "string \<Rightarrow> string \<Rightarrow> string \<Rightarrow> string list \<Rightarrow> string option" where
  "sed_owner var ident pre (a # b # c # d # fs) =
     (if c = ident then Some (pre @ var @ ''='' @ a)
      else sed_owner var ident (pre @ a @ '':'') (b # c # d # fs))"
| "sed_owner var ident pre fs = None"

definition sed_n :: "(string list \<Rightarrow> string option) \<Rightarrow> string list \<Rightarrow> string list" where
  "sed_n subst lines = List.map_filter (\<lambda>l. subst (split_colon l)) lines"

subsection \<open>What eval does with it\<close>

text \<open>
  \<^verbatim>\<open>eval $(sed ...)\<close>: the shell cuts the output of sed into words at blanks (space, tab,
  newline), joins the words by spaces and reads the result as a command line. For text
  without quotes, backslashes, \<^verbatim>\<open>$\<close>, pattern characters, redirections, comments and
  reserved words the reading is this:
  \<^item> semicolons separate the commands, and blanks separate the words of a command;
  \<^item> a word \<^verbatim>\<open>NAME=value\<close> is an assignment when \<^verbatim>\<open>NAME\<close> is a shell name;
  \<^item> a command that consists of assignments sets its variables, from left to right;
  \<^item> any other command has a word that is not an assignment in it, which names a
    program or a builtin of the shell. The word is a piece of a line of \<^verbatim>\<open>/etc/passwd\<close>
    or \<^verbatim>\<open>/etc/group\<close>, and the model takes it that nothing of that name exists: the
    command is not found, the assignments in front of it hold for that command only and
    are lost, and the words after it are its arguments.
  An empty command before a semicolon is a syntax error, at which \<^verbatim>\<open>eval\<close> runs nothing
  (some shells stop the whole script there; the model goes on as the others do). The
  variables are a function from names to values; a variable that is not set reads as
  the empty text, and the shell starts with no variable of the script set but the three
  that the Go code passes.
\<close>

definition blank :: "char \<Rightarrow> bool" where
  "blank c \<longleftrightarrow> c = CHR '' '' \<or> c = CHR 0x09 \<or> c = CHR 0x0A"

definition shell_words :: "string \<Rightarrow> string list" where
  "shell_words s = filter (\<lambda>w. w \<noteq> []) (split_where blank s)"

definition commands :: "string \<Rightarrow> string list list" where
  "commands s = map shell_words (split_where (\<lambda>c. c = CHR '';'') s)"

definition name_char :: "char \<Rightarrow> bool" where
  "name_char c \<longleftrightarrow>
     c \<in> set ''_abcdefghijklmnopqrstuvwxyzABCDEFGHIJKLMNOPQRSTUVWXYZ0123456789''"

definition shell_name :: "string \<Rightarrow> bool" where
  "shell_name n \<longleftrightarrow>
     (case n of [] \<Rightarrow> False
      | c # cs \<Rightarrow> c \<notin> set ''0123456789'' \<and> list_all name_char n)"

definition var_name :: "string \<Rightarrow> string" where
  "var_name w = takeWhile (\<lambda>c. c \<noteq> CHR ''='') w"

definition var_value :: "string \<Rightarrow> string" where
  "var_value w = drop (Suc (length (var_name w))) w"

definition assignment :: "string \<Rightarrow> bool" where
  "assignment w \<longleftrightarrow> CHR ''='' \<in> set w \<and> shell_name (var_name w)"

type_synonym variables = "string \<Rightarrow> string"

definition assign :: "variables \<Rightarrow> string \<Rightarrow> variables" where
  "assign vars w = vars(var_name w := var_value w)"

definition run_command :: "variables \<Rightarrow> string list \<Rightarrow> variables" where
  "run_command vars ws = (if list_all assignment ws then foldl assign vars ws else vars)"

definition eval :: "string list \<Rightarrow> variables \<Rightarrow> variables" where
  "eval printed vars =
     (let cs = commands (concat (map (\<lambda>l. l @ '' '') printed))
      in if list_all (\<lambda>ws. ws \<noteq> []) (butlast cs) then foldl run_command vars cs else vars)"

subsection \<open>The two edits\<close>

text \<open>
  \<^verbatim>\<open>
  sed -i -e "s/\(${REMOTE_USER}:[^:]*:\)[^:]*:[^:]*/\1${NEW_UID}:${NEW_GID}/" /etc/passwd;
  sed -i -e "s/\([^:]*:[^:]*:\)${OLD_GID}:/\1${NEW_GID}:/" /etc/group;
  \<close>
  Each edit rewrites every line of its file at the leftmost match, once (there is no
  \<^verbatim>\<open>g\<close> flag). The first replaces the two fields that follow the field after a field
  ending in \<^verbatim>\<open>REMOTE_USER\<close>; the second replaces the first field that equals
  \<^verbatim>\<open>OLD_GID\<close>, has two fields before it and a colon after it.
\<close>

fun set_ids :: "string \<Rightarrow> string \<Rightarrow> string \<Rightarrow> string list \<Rightarrow> string list" where
  "set_ids ru uid gid (a # b # c # d # fs) =
     (if ends_with a ru then a # b # uid # gid # fs
      else a # set_ids ru uid gid (b # c # d # fs))"
| "set_ids ru uid gid fs = fs"

fun set_gid :: "string \<Rightarrow> string \<Rightarrow> string list \<Rightarrow> string list" where
  "set_gid old new (a # b # c # d # fs) =
     (if c = old then a # b # new # d # fs
      else a # set_gid old new (b # c # d # fs))"
| "set_gid old new fs = fs"

definition sed_passwd :: "string \<Rightarrow> string \<Rightarrow> string \<Rightarrow> string list \<Rightarrow> string list" where
  "sed_passwd ru uid gid lines = map (\<lambda>l. join_colon (set_ids ru uid gid (split_colon l))) lines"

definition sed_group :: "string \<Rightarrow> string \<Rightarrow> string list \<Rightarrow> string list" where
  "sed_group old new lines = map (\<lambda>l. join_colon (set_gid old new (split_colon l))) lines"

subsection \<open>The script\<close>

text \<open>
  The container as the script sees and changes it: the two files, the output of
  \<^verbatim>\<open>echo\<close> (which \<^verbatim>\<open>ExecSync\<close> copies to the log writer), and the calls of
  \<^verbatim>\<open>chown -R\<close>, each with the words the shell makes of
  \<^verbatim>\<open>$NEW_UID:$NEW_GID $HOME_FOLDER\<close>: the owner and, unless \<^verbatim>\<open>HOME_FOLDER\<close> is empty, the
  folder. A call without a folder changes no ownership.
  \<^verbatim>\<open>
  eval $(sed -n "s/${REMOTE_USER}:.../OLD_UID=\1;OLD_GID=\2;HOME_FOLDER=\3/p" /etc/passwd);
  eval $(sed -n "s/\([^:]*\):[^:]*:${NEW_UID}:.*/EXISTING_USER=\1/p" /etc/passwd);
  eval $(sed -n "s/\([^:]*\):[^:]*:${NEW_GID}:.*/EXISTING_GROUP=\1/p" /etc/group);
  if [ -z "$OLD_UID" ]; then
      echo "Remote user not found in /etc/passwd ($REMOTE_USER).";
  elif [ "$OLD_UID" = "$NEW_UID" -a "$OLD_GID" = "$NEW_GID" ]; then
      echo "UIDs and GIDs are the same ($NEW_UID:$NEW_GID).";
  elif [ "$OLD_UID" != "$NEW_UID" -a -n "$EXISTING_USER" ]; then
      echo "User with UID exists ($EXISTING_USER=$NEW_UID).";
  else
      if [ "$OLD_GID" != "$NEW_GID" -a -n "$EXISTING_GROUP" ]; then
          echo "Group with GID exists ($EXISTING_GROUP=$NEW_GID).";
          NEW_GID="$OLD_GID";
      fi;
      echo "Updating UID:GID from $OLD_UID:$OLD_GID to $NEW_UID:$NEW_GID.";
      sed -i -e "s/\(${REMOTE_USER}:[^:]*:\)[^:]*:[^:]*/\1${NEW_UID}:${NEW_GID}/" /etc/passwd;
      if [ "$OLD_GID" != "$NEW_GID" ]; then
          sed -i -e "s/\([^:]*:[^:]*:\)${OLD_GID}:/\1${NEW_GID}:/" /etc/group;
      fi;
      chown -R $NEW_UID:$NEW_GID $HOME_FOLDER;
  fi;
  \<close>
  The environment gives \<^verbatim>\<open>REMOTE_USER\<close>, \<^verbatim>\<open>NEW_UID\<close> and \<^verbatim>\<open>NEW_GID\<close>. The Go code
  passes the name \<^verbatim>\<open>daytona\<close> and the ids that \<^verbatim>\<open>os/user\<close> or the remote shell
  report, decimal numerals on the systems it runs the script for; spliced into a
  pattern or a replacement, a name or an id without pattern characters stands for
  itself. \<open>lookups\<close> is the state of the variables after the three \<^verbatim>\<open>eval\<close> lines.
\<close>

record container =
  passwd :: "string list"
  group :: "string list"
  echoed :: "string list"
  chowned :: "string list list"

definition lookups :: "string \<Rightarrow> string \<Rightarrow> string \<Rightarrow> container \<Rightarrow> variables" where
  "lookups REMOTE_USER NEW_UID NEW_GID c =
     (let vars0 = (\<lambda>v. [])(''REMOTE_USER'' := REMOTE_USER, ''NEW_UID'' := NEW_UID,
                             ''NEW_GID'' := NEW_GID);
          vars1 = eval (sed_n (sed_user (vars0 ''REMOTE_USER'') []) (passwd c)) vars0;
          vars2 = eval (sed_n (sed_owner ''EXISTING_USER'' (vars1 ''NEW_UID'') []) (passwd c)) vars1
      in eval (sed_n (sed_owner ''EXISTING_GROUP'' (vars2 ''NEW_GID'') []) (group c)) vars2)"

definition update_ids :: "variables \<Rightarrow> container \<Rightarrow> container" where
  "update_ids vars c =
     (let collision = (vars ''OLD_GID'' \<noteq> vars ''NEW_GID'' \<and> vars ''EXISTING_GROUP'' \<noteq> []);
          vars' = (if collision then vars(''NEW_GID'' := vars ''OLD_GID'') else vars)
      in c\<lparr>passwd := sed_passwd (vars' ''REMOTE_USER'') (vars' ''NEW_UID'') (vars' ''NEW_GID'')
                        (passwd c),
           group := (if vars' ''OLD_GID'' \<noteq> vars' ''NEW_GID''
                     then sed_group (vars' ''OLD_GID'') (vars' ''NEW_GID'') (group c)
                     else group c),
           echoed := echoed c
             @ (if collision
                then [''Group with GID exists ('' @ vars ''EXISTING_GROUP'' @ ''=''
                        @ vars ''NEW_GID'' @ '').'']
                else [])
             @ [''Updating UID:GID from '' @ vars' ''OLD_UID'' @ '':'' @ vars' ''OLD_GID''
                  @ '' to '' @ vars' ''NEW_UID'' @ '':'' @ vars' ''NEW_GID'' @ ''.''],
           chowned := chowned c
             @ [shell_words (vars' ''NEW_UID'' @ '':'' @ vars' ''NEW_GID'' @ '' ''
                              @ vars' ''HOME_FOLDER'')]\<rparr>)"

definition UPDATE_UID_GID_SCRIPT :: "string \<Rightarrow> string \<Rightarrow> string \<Rightarrow> container \<Rightarrow> container" where
  "UPDATE_UID_GID_SCRIPT REMOTE_USER NEW_UID NEW_GID c =
     (let vars = lookups REMOTE_USER NEW_UID NEW_GID c
      in if vars ''OLD_UID'' = [] then
           c\<lparr>echoed := echoed c
               @ [''Remote user not found in /etc/passwd ('' @ vars ''REMOTE_USER'' @ '').'']\<rparr>
         else if vars ''OLD_UID'' = vars ''NEW_UID'' \<and> vars ''OLD_GID'' = vars ''NEW_GID'' then
           c\<lparr>echoed := echoed c
               @ [''UIDs and GIDs are the same ('' @ vars ''NEW_UID'' @ '':''
                    @ vars ''NEW_GID'' @ '').'']\<rparr>
         else if vars ''OLD_UID'' \<noteq> vars ''NEW_UID'' \<and> vars ''EXISTING_USER'' \<noteq> [] then
           c\<lparr>echoed := echoed c
               @ [''User with UID exists ('' @ vars ''EXISTING_USER'' @ ''=''
                    @ vars ''NEW_UID'' @ '').'']\<rparr>
         else update_ids vars c)"

subsection \<open>A regular user database\<close>

text \<open>
  The theorems about the script are stated for user databases of the usual shape;
  the definitions of this subsection say what that is, in terms of the two files alone.
  \<open>nth_field i l\<close> is the field of a line at position \<open>i\<close>, counted from 0: in
  \<^verbatim>\<open>/etc/passwd\<close> the name is field 0, the UID field 2, the GID field 3, the comment
  field 4 and the home folder field 5; in \<^verbatim>\<open>/etc/group\<close> the name is field 0 and the GID
  field 2. A text is \<open>plain\<close> when it is not empty and made of letters, digits and
  \<^verbatim>\<open>/ _ . , + @ % -\<close>, which the shell reads as they are; \<open>decimal\<close> when it is a
  non-empty row of digits.

  A line of \<^verbatim>\<open>/etc/passwd\<close> is regular for a remote user when it has seven fields, a
  plain name, decimal ids and a plain home folder, and either is the entry of the remote
  user or has neither a name nor a password field that ends in the remote user's name
  (the pattern of the script would match there). It has no stray occurrence of an id when
  the id is its UID, or is none of its GID, comment and home folder (the pattern of the
  second \<^verbatim>\<open>sed\<close> would match there, with a part of the line in front of the assignment).
  A line of \<^verbatim>\<open>/etc/group\<close> is regular when it has four fields and a plain name.
\<close>

definition nth_field :: "nat \<Rightarrow> string \<Rightarrow> string" where
  "nth_field i l = (let fs = split_colon l in if i < length fs then fs ! i else [])"

definition plain_char :: "char \<Rightarrow> bool" where
  "plain_char c \<longleftrightarrow>
     c \<in> set ''abcdefghijklmnopqrstuvwxyzABCDEFGHIJKLMNOPQRSTUVWXYZ0123456789/_.,+@%-''"

definition plain :: "string \<Rightarrow> bool" where
  "plain s \<longleftrightarrow> s \<noteq> [] \<and> list_all plain_char s"

definition decimal :: "string \<Rightarrow> bool" where
  "decimal s \<longleftrightarrow> s \<noteq> [] \<and> list_all (\<lambda>c. c \<in> set ''0123456789'') s"

definition regular_line :: "string \<Rightarrow> string \<Rightarrow> bool" where
  "regular_line ru l \<longleftrightarrow>
     length (split_colon l) = 7 \<and> plain (nth_field 0 l)
     \<and> decimal (nth_field 2 l) \<and> decimal (nth_field 3 l) \<and> plain (nth_field 5 l)
     \<and> (nth_field 0 l = ru
         \<or> \<not> ends_with (nth_field 0 l) ru \<and> \<not> ends_with (nth_field 1 l) ru)"

definition no_stray :: "string \<Rightarrow> string \<Rightarrow> bool" where
  "no_stray ident l \<longleftrightarrow>
     nth_field 2 l = ident
     \<or> nth_field 3 l \<noteq> ident \<and> nth_field 4 l \<noteq> ident \<and> nth_field 5 l \<noteq> ident"

definition regular_group_line :: "string \<Rightarrow> bool" where
  "regular_group_line l \<longleftrightarrow> length (split_colon l) = 4 \<and> plain (nth_field 0 l)"

definition regular :: "string \<Rightarrow> string \<Rightarrow> container \<Rightarrow> bool" where
  "regular ru ident c \<longleftrightarrow>
     list_all (\<lambda>l. regular_line ru l \<and> no_stray ident l) (passwd c)
     \<and> list_all regular_group_line (group c)"

text \<open>
  The entries of a user, the users that own a UID and the groups that own a GID, in the
  order of the file.
\<close>

definition entries :: "string \<Rightarrow> string list \<Rightarrow> string list" where
  "entries name lines = filter (\<lambda>l. nth_field 0 l = name) lines"

definition owners :: "string \<Rightarrow> string list \<Rightarrow> string list" where
  "owners ident lines = map (nth_field 0) (filter (\<lambda>l. nth_field 2 l = ident) lines)"

subsection \<open>Cutting and joining\<close>

lemma split_where_not_Nil: "split_where p s \<noteq> []"
  by (induction s) (auto split: list.splits)

lemma split_where_plain: "(\<And>x. x \<in> set a \<Longrightarrow> \<not> p x) \<Longrightarrow> split_where p a = [a]"
  by (induction a) auto

lemma split_where_sep:
  "(\<And>x. x \<in> set a \<Longrightarrow> \<not> p x) \<Longrightarrow> p c \<Longrightarrow> split_where p (a @ c # rest) = a # split_where p rest"
  by (induction a) auto

lemma join_split_colon: "join_colon (split_colon s) = s"
proof (induction s)
  case Nil
  show ?case by (simp add: split_colon_def)
next
  case (Cons c cs)
  obtain f fs where sp: "split_where (\<lambda>c. c = CHR '':'') cs = f # fs"
    using split_where_not_Nil [of "\<lambda>c. c = CHR '':''" cs]
    by (cases "split_where (\<lambda>c. c = CHR '':'') cs") auto
  with Cons have cs: "cs = join_colon (f # fs)" by (simp add: split_colon_def)
  show ?case
  proof (cases "c = CHR '':''")
    case True
    with sp cs show ?thesis by (simp add: split_colon_def)
  next
    case False
    with sp cs show ?thesis by (cases fs) (simp_all add: split_colon_def)
  qed
qed

lemma ends_with_self [simp]: "ends_with s s"
  by (simp add: ends_with_def)

subsection \<open>Words and assignments\<close>

lemma shell_words_word:
  assumes "w \<noteq> []" "\<And>x. x \<in> set w \<Longrightarrow> \<not> blank x"
  shows "shell_words w = [w]"
  using assms by (simp add: shell_words_def split_where_plain)

lemma shell_words_concat:
  assumes "\<And>w. w \<in> set ws \<Longrightarrow> w \<noteq> [] \<and> (\<forall>x \<in> set w. \<not> blank x)"
  shows "shell_words (concat (map (\<lambda>w. w @ '' '') ws)) = ws"
  using assms
proof (induction ws)
  case Nil
  show ?case by (simp add: shell_words_def)
next
  case (Cons w ws)
  then have w: "w \<noteq> []" "\<And>x. x \<in> set w \<Longrightarrow> \<not> blank x" by auto
  have "split_where blank (w @ CHR '' '' # concat (map (\<lambda>w. w @ '' '') ws))
      = w # split_where blank (concat (map (\<lambda>w. w @ '' '') ws))"
    by (rule split_where_sep) (simp add: w, simp add: blank_def)
  moreover have "shell_words (concat (map (\<lambda>w. w @ '' '') ws)) = ws"
    by (rule Cons.IH) (use Cons.prems in auto)
  ultimately show ?case using w(1) by (simp add: shell_words_def)
qed

lemma shell_words_pair:
  assumes "a \<noteq> []" "\<And>x. x \<in> set a \<Longrightarrow> \<not> blank x" "b \<noteq> []" "\<And>x. x \<in> set b \<Longrightarrow> \<not> blank x"
  shows "shell_words (a @ '' '' @ b) = [a, b]"
proof -
  have "split_where blank (a @ CHR '' '' # b) = a # split_where blank b"
    by (rule split_where_sep) (simp add: assms, simp add: blank_def)
  also have "split_where blank b = [b]" by (rule split_where_plain) (simp add: assms)
  finally show ?thesis using assms(1,3) by (simp add: shell_words_def)
qed

lemma var_name_assignment: "CHR ''='' \<notin> set n \<Longrightarrow> var_name (n @ CHR ''='' # v) = n"
  by (induction n) (auto simp: var_name_def)

lemma var_value_assignment: "CHR ''='' \<notin> set n \<Longrightarrow> var_value (n @ CHR ''='' # v) = v"
  by (simp add: var_value_def var_name_assignment)

lemma assign_word:
  "CHR ''='' \<notin> set n \<Longrightarrow> assign vars (n @ CHR ''='' # v) = vars(n := v)"
  by (simp add: assign_def var_name_assignment var_value_assignment)

lemma assignment_word:
  "CHR ''='' \<notin> set n \<Longrightarrow> shell_name n \<Longrightarrow> assignment (n @ CHR ''='' # v)"
  by (simp add: assignment_def var_name_assignment)

lemma shell_name_chars: "shell_name n \<Longrightarrow> x \<in> set n \<Longrightarrow> name_char x"
  by (auto simp: shell_name_def list_all_iff split: list.splits)

lemma name_char_ordinary:
  "name_char x \<Longrightarrow> \<not> blank x \<and> x \<noteq> CHR '';'' \<and> x \<noteq> CHR ''='' \<and> x \<noteq> CHR '':''"
  unfolding name_char_def blank_def by auto

lemma set_spaced:
  "x \<in> set (concat (map (\<lambda>l. l @ '' '') ls)) \<Longrightarrow> (\<exists>l \<in> set ls. x \<in> set l) \<or> x = CHR '' ''"
  by (induction ls) auto

lemma run_assignment:
  "CHR ''='' \<notin> set n \<Longrightarrow> shell_name n \<Longrightarrow> run_command vars [n @ CHR ''='' # v] = vars(n := v)"
  by (simp add: run_command_def assignment_word assign_word)

lemma eval_nothing: "eval [] vars = vars"
  by (simp add: eval_def commands_def shell_words_def run_command_def)

text \<open>
  The lines that the second and third \<^verbatim>\<open>sed\<close> print when every match starts its line:
  one command of assignments to the same variable, of which the last one stays.
\<close>

lemma eval_owner_lines:
  assumes var: "shell_name var"
    and ns: "ns \<noteq> []" "\<And>n x. n \<in> set ns \<Longrightarrow> x \<in> set n \<Longrightarrow> \<not> blank x \<and> x \<noteq> CHR '';''"
  shows "eval (map (\<lambda>n. var @ ''='' @ n) ns) vars = vars(var := last ns)"
proof -
  let ?ls = "map (\<lambda>n. var @ ''='' @ n) ns"
  let ?text = "concat (map (\<lambda>l. l @ '' '') ?ls)"
  have var_chars: "\<not> blank x \<and> x \<noteq> CHR '';'' \<and> x \<noteq> CHR ''=''" if "x \<in> set var" for x
    using shell_name_chars [OF var that] name_char_ordinary by blast
  then have no_eq: "CHR ''='' \<notin> set var" by blast
  have eq_char: "\<not> blank (CHR ''='') \<and> CHR ''='' \<noteq> CHR '';''" by (simp add: blank_def)
  have line_chars: "\<not> blank x \<and> x \<noteq> CHR '';''" if "l \<in> set ?ls" "x \<in> set l" for l x
  proof -
    from that(1) obtain n where n: "n \<in> set ns" "l = var @ ''='' @ n" by auto
    with that(2) consider "x \<in> set var" | "x = CHR ''=''" | "x \<in> set n" by auto
    then show ?thesis
    proof cases
      case 1 with var_chars show ?thesis by blast
    next
      case 2 with eq_char show ?thesis by simp
    next
      case 3 with ns(2) n(1) show ?thesis by blast
    qed
  qed
  have "x \<noteq> CHR '';''" if "x \<in> set ?text" for x
  proof -
    from set_spaced [OF that] consider l where "l \<in> set ?ls" "x \<in> set l" | "x = CHR '' ''"
      by blast
    then show ?thesis
    proof cases
      case 1 with line_chars show ?thesis by blast
    next
      case 2 then show ?thesis by simp
    qed
  qed
  then have "split_where (\<lambda>c. c = CHR '';'') ?text = [?text]"
    by (intro split_where_plain) simp
  moreover have "shell_words ?text = ?ls"
  proof (rule shell_words_concat)
    fix w assume "w \<in> set ?ls"
    with line_chars show "w \<noteq> [] \<and> (\<forall>x \<in> set w. \<not> blank x)" by auto
  qed
  ultimately have cs: "commands ?text = [?ls]" by (simp add: commands_def)
  have all: "list_all assignment ?ls"
    using no_eq var by (simp add: list_all_iff assignment_word)
  have "foldl assign vars (map (\<lambda>n. var @ ''='' @ n) ms) = (if ms = [] then vars else vars(var := last ms))"
    for ms
    by (induction ms rule: rev_induct) (auto simp: assign_word no_eq fun_eq_iff)
  with ns(1) all cs show ?thesis by (simp add: eval_def run_command_def)
qed

text \<open>
  The one line that the first \<^verbatim>\<open>sed\<close> prints for a user whose line it matches at the
  start: three commands, each an assignment.
\<close>

lemma eval_user_line:
  assumes "\<And>x. x \<in> set u \<Longrightarrow> \<not> blank x \<and> x \<noteq> CHR '';''"
    and "\<And>x. x \<in> set g \<Longrightarrow> \<not> blank x \<and> x \<noteq> CHR '';''"
    and "\<And>x. x \<in> set h \<Longrightarrow> \<not> blank x \<and> x \<noteq> CHR '';''"
  shows "eval [''OLD_UID='' @ u @ '';OLD_GID='' @ g @ '';HOME_FOLDER='' @ h] vars
           = vars(''OLD_UID'' := u, ''OLD_GID'' := g, ''HOME_FOLDER'' := h)"
proof -
  let ?semi = "\<lambda>c. c = CHR '';''"
  have "split_where ?semi ((''OLD_UID='' @ u) @ CHR '';'' # (''OLD_GID='' @ g)
            @ CHR '';'' # (''HOME_FOLDER='' @ h @ '' ''))
      = (''OLD_UID='' @ u) # split_where ?semi ((''OLD_GID='' @ g)
            @ CHR '';'' # (''HOME_FOLDER='' @ h @ '' ''))"
    by (rule split_where_sep) (use assms(1) in auto)
  also have "split_where ?semi ((''OLD_GID='' @ g) @ CHR '';'' # (''HOME_FOLDER='' @ h @ '' ''))
      = (''OLD_GID='' @ g) # split_where ?semi (''HOME_FOLDER='' @ h @ '' '')"
    by (rule split_where_sep) (use assms(2) in auto)
  also have "split_where ?semi (''HOME_FOLDER='' @ h @ '' '') = [''HOME_FOLDER='' @ h @ '' '']"
    by (rule split_where_plain) (use assms(3) in auto)
  finally have cut: "split_where ?semi
      (concat (map (\<lambda>l. l @ '' '') [''OLD_UID='' @ u @ '';OLD_GID='' @ g @ '';HOME_FOLDER='' @ h]))
      = [''OLD_UID='' @ u, ''OLD_GID='' @ g, ''HOME_FOLDER='' @ h @ '' '']"
    by simp
  have w1: "shell_words (''OLD_UID='' @ u) = [''OLD_UID='' @ u]"
    by (rule shell_words_word) (use assms(1) in \<open>auto simp: blank_def\<close>)
  have w2: "shell_words (''OLD_GID='' @ g) = [''OLD_GID='' @ g]"
    by (rule shell_words_word) (use assms(2) in \<open>auto simp: blank_def\<close>)
  have w3: "shell_words (''HOME_FOLDER='' @ h @ '' '') = [''HOME_FOLDER='' @ h]"
    using shell_words_concat [of "[''HOME_FOLDER='' @ h]"] assms(3)
    by (auto simp: blank_def)
  have r1: "run_command vs [''OLD_UID='' @ u] = vs(''OLD_UID'' := u)" for vs
    using run_assignment [of "''OLD_UID''" vs u] by (simp add: shell_name_def name_char_def)
  have r2: "run_command vs [''OLD_GID='' @ g] = vs(''OLD_GID'' := g)" for vs
    using run_assignment [of "''OLD_GID''" vs g] by (simp add: shell_name_def name_char_def)
  have r3: "run_command vs [''HOME_FOLDER='' @ h] = vs(''HOME_FOLDER'' := h)" for vs
    using run_assignment [of "''HOME_FOLDER''" vs h] by (simp add: shell_name_def name_char_def)
  show ?thesis
    unfolding eval_def commands_def cut Let_def
    by (simp only: list.map w1 w2 w3 butlast.simps list.simps list.pred_inject foldl.simps r1 r2 r3
        if_True if_False not_Cons_self2 simp_thms)
qed


subsection \<open>Regular lines\<close>

lemma plain_char_ordinary: "plain_char x \<Longrightarrow> \<not> blank x \<and> x \<noteq> CHR '';''"
  unfolding plain_char_def blank_def by auto

lemma plain_ordinary: "plain s \<Longrightarrow> x \<in> set s \<Longrightarrow> \<not> blank x \<and> x \<noteq> CHR '';''"
  unfolding plain_def list_all_iff using plain_char_ordinary by blast

lemma digit_plain: "c \<in> set ''0123456789'' \<Longrightarrow> plain_char c"
  unfolding plain_char_def by auto

lemma decimal_plain: "decimal s \<Longrightarrow> plain s"
  unfolding plain_def decimal_def list_all_iff using digit_plain by blast

lemma ends_with_last: "ends_with f s \<Longrightarrow> s \<noteq> [] \<Longrightarrow> f \<noteq> [] \<and> last f = last s"
proof -
  assume e: "ends_with f s" and s: "s \<noteq> []"
  then have f: "f = take (length f - length s) f @ s"
    by (metis append_take_drop_id ends_with_def)
  from s have "last (take (length f - length s) f @ s) = last s" by simp
  with f s show ?thesis by (metis Nil_is_append_conv)
qed

lemma decimal_not_ends_with:
  assumes "decimal s" "ru \<noteq> []" "last ru \<notin> set ''0123456789''"
  shows "\<not> ends_with s ru"
proof
  assume "ends_with s ru"
  with assms(2) have "s \<noteq> []" "last s = last ru" using ends_with_last by blast+
  moreover from assms(1) \<open>s \<noteq> []\<close> have "last s \<in> set ''0123456789''"
    unfolding decimal_def list_all_iff using last_in_set by blast
  ultimately show False using assms(3) by simp
qed

lemma seven_fields:
  assumes "length fs = 7"
  obtains a b c d e f g where "fs = [a, b, c, d, e, f, g]"
proof -
  from assms have "\<exists>a b c d e f g. fs = [a, b, c, d, e, f, g]"
    by (simp add: eval_nat_numeral length_Suc_conv) blast
  then show thesis using that by blast
qed

lemma four_fields:
  assumes "length fs = 4"
  obtains a b c d where "fs = [a, b, c, d]"
proof -
  from assms have "\<exists>a b c d. fs = [a, b, c, d]"
    by (simp add: eval_nat_numeral length_Suc_conv) blast
  then show thesis using that by blast
qed

lemma map_filter_if:
  "(\<And>x. x \<in> set xs \<Longrightarrow> f x = (if P x then Some (g x) else None))
     \<Longrightarrow> List.map_filter f xs = map g (filter P xs)"
  by (induction xs) (simp_all add: map_filter_simps)

lemma sed_user_regular:
  assumes "regular_line ru l"
  shows "sed_user ru [] (split_colon l)
     = (if nth_field 0 l = ru
        then Some (''OLD_UID='' @ nth_field 2 l @ '';OLD_GID='' @ nth_field 3 l
                    @ '';HOME_FOLDER='' @ nth_field 5 l)
        else None)"
proof -
  from assms have "length (split_colon l) = 7" by (simp add: regular_line_def)
  then obtain a b c d e f g where fs: "split_colon l = [a, b, c, d, e, f, g]"
    by (rule seven_fields)
  from assms fs have "a = ru \<or> \<not> ends_with a ru \<and> \<not> ends_with b ru"
    by (simp add: regular_line_def nth_field_def)
  then show ?thesis by (auto simp: fs nth_field_def)
qed

lemma sed_owner_regular:
  assumes "regular_line ru l" "no_stray ident l"
  shows "sed_owner var ident [] (split_colon l)
     = (if nth_field 2 l = ident then Some (var @ ''='' @ nth_field 0 l) else None)"
proof -
  from assms have "length (split_colon l) = 7" by (simp add: regular_line_def)
  then obtain a b c d e f g where fs: "split_colon l = [a, b, c, d, e, f, g]"
    by (rule seven_fields)
  from assms(2) fs have "c = ident \<or> d \<noteq> ident \<and> e \<noteq> ident \<and> f \<noteq> ident"
    by (simp add: no_stray_def nth_field_def)
  then show ?thesis by (auto simp: fs nth_field_def)
qed

lemma sed_owner_group:
  assumes "regular_group_line l"
  shows "sed_owner var ident [] (split_colon l)
     = (if nth_field 2 l = ident then Some (var @ ''='' @ nth_field 0 l) else None)"
proof -
  from assms have "length (split_colon l) = 4" by (simp add: regular_group_line_def)
  then obtain a b c d where fs: "split_colon l = [a, b, c, d]"
    by (rule four_fields)
  then show ?thesis by (simp add: nth_field_def)
qed

lemma set_ids_regular:
  assumes "regular_line ru l" "ru \<noteq> []" "last ru \<notin> set ''0123456789''"
  shows "set_ids ru u g (split_colon l)
     = (if nth_field 0 l = ru then (split_colon l)[2 := u, 3 := g] else split_colon l)"
proof -
  from assms have "length (split_colon l) = 7" by (simp add: regular_line_def)
  then obtain a b c d e f h where fs: "split_colon l = [a, b, c, d, e, f, h]"
    by (rule seven_fields)
  from assms(1) fs have names: "a = ru \<or> \<not> ends_with a ru \<and> \<not> ends_with b ru"
    and "decimal c" "decimal d"
    by (simp_all add: regular_line_def nth_field_def)
  with assms(2,3) have "\<not> ends_with c ru" "\<not> ends_with d ru"
    by (simp_all add: decimal_not_ends_with)
  with names show ?thesis by (auto simp: fs nth_field_def)
qed


subsection \<open>The variables after the three lookups\<close>

lemma entries_member: "entries name lines = [entry] \<Longrightarrow> entry \<in> set lines \<and> nth_field 0 entry = name"
proof -
  assume "entries name lines = [entry]"
  then have "entry \<in> set (filter (\<lambda>l. nth_field 0 l = name) lines)" by (simp add: entries_def)
  then show ?thesis by simp
qed

lemma entries_only:
  "entries name lines = [entry] \<Longrightarrow> l \<in> set lines \<Longrightarrow> nth_field 0 l = name \<Longrightarrow> l = entry"
proof -
  assume one: "entries name lines = [entry]" and "l \<in> set lines" "nth_field 0 l = name"
  then have "l \<in> set (filter (\<lambda>l. nth_field 0 l = name) lines)" by simp
  then have "l \<in> set (entries name lines)" by (simp only: entries_def)
  then show ?thesis by (simp add: one)
qed

lemma eval_user:
  assumes reg: "\<And>l. l \<in> set lines \<Longrightarrow> regular_line ru l"
    and one: "entries ru lines = [entry]"
  shows "eval (sed_n (sed_user ru []) lines) vars
     = vars(''OLD_UID'' := nth_field 2 entry, ''OLD_GID'' := nth_field 3 entry,
            ''HOME_FOLDER'' := nth_field 5 entry)"
proof -
  let ?print = "\<lambda>l. ''OLD_UID='' @ nth_field 2 l @ '';OLD_GID='' @ nth_field 3 l
                    @ '';HOME_FOLDER='' @ nth_field 5 l"
  have "sed_n (sed_user ru []) lines = map ?print (filter (\<lambda>l. nth_field 0 l = ru) lines)"
    unfolding sed_n_def by (rule map_filter_if) (rule sed_user_regular, rule reg)
  also have "\<dots> = [?print entry]" using one by (simp only: entries_def list.map)
  finally have printed: "sed_n (sed_user ru []) lines = [?print entry]" .
  from one have "entry \<in> set lines" by (simp add: entries_member)
  then have "regular_line ru entry" by (rule reg)
  then have fields: "plain (nth_field 2 entry)" "plain (nth_field 3 entry)"
      "plain (nth_field 5 entry)"
    by (simp_all add: regular_line_def decimal_plain)
  show ?thesis
    unfolding printed by (rule eval_user_line) (use fields plain_ordinary in blast)+
qed

lemma eval_owners:
  assumes var: "shell_name var"
    and found: "\<And>l. l \<in> set lines \<Longrightarrow> sed_owner var ident [] (split_colon l)
        = (if nth_field 2 l = ident then Some (var @ ''='' @ nth_field 0 l) else None)"
    and names: "\<And>l. l \<in> set lines \<Longrightarrow> plain (nth_field 0 l)"
  shows "eval (sed_n (sed_owner var ident []) lines) vars
     = (if owners ident lines = [] then vars else vars(var := last (owners ident lines)))"
proof -
  have "sed_n (sed_owner var ident []) lines
      = map (\<lambda>l. var @ ''='' @ nth_field 0 l) (filter (\<lambda>l. nth_field 2 l = ident) lines)"
    unfolding sed_n_def by (rule map_filter_if) (rule found)
  also have "\<dots> = map (\<lambda>n. var @ ''='' @ n) (owners ident lines)"
    by (simp only: owners_def map_map comp_def)
  finally have printed: "sed_n (sed_owner var ident []) lines
      = map (\<lambda>n. var @ ''='' @ n) (owners ident lines)" .
  show ?thesis
  proof (cases "owners ident lines = []")
    case True
    with printed show ?thesis by (simp add: eval_nothing)
  next
    case False
    have "\<not> blank x \<and> x \<noteq> CHR '';''" if "n \<in> set (owners ident lines)" "x \<in> set n" for n x
    proof -
      from that(1) obtain l where "l \<in> set lines" "n = nth_field 0 l"
        by (auto simp: owners_def)
      with names have "plain n" by simp
      from this that(2) show ?thesis by (rule plain_ordinary)
    qed
    with var False have "eval (map (\<lambda>n. var @ ''='' @ n) (owners ident lines)) vars
        = vars(var := last (owners ident lines))"
      by (intro eval_owner_lines) auto
    with printed False show ?thesis by simp
  qed
qed

lemma shell_name_EXISTING: "shell_name ''EXISTING_USER''" "shell_name ''EXISTING_GROUP''"
  by (simp_all add: shell_name_def name_char_def)

lemma lookups_regular:
  assumes reg: "regular ru NEW_UID c" and one: "entries ru (passwd c) = [entry]"
  shows "lookups ru NEW_UID NEW_GID c
     = (let vars1 = (\<lambda>v. [])(''REMOTE_USER'' := ru, ''NEW_UID'' := NEW_UID, ''NEW_GID'' := NEW_GID,
                      ''OLD_UID'' := nth_field 2 entry, ''OLD_GID'' := nth_field 3 entry,
                      ''HOME_FOLDER'' := nth_field 5 entry);
            vars2 = (if owners NEW_UID (passwd c) = [] then vars1
                     else vars1(''EXISTING_USER'' := last (owners NEW_UID (passwd c))))
        in if owners NEW_GID (group c) = [] then vars2
           else vars2(''EXISTING_GROUP'' := last (owners NEW_GID (group c))))"
proof -
  let ?vars0 = "(\<lambda>v. [])(''REMOTE_USER'' := ru, ''NEW_UID'' := NEW_UID, ''NEW_GID'' := NEW_GID)"
  let ?vars1 = "?vars0(''OLD_UID'' := nth_field 2 entry, ''OLD_GID'' := nth_field 3 entry,
                      ''HOME_FOLDER'' := nth_field 5 entry)"
  let ?vars2 = "if owners NEW_UID (passwd c) = [] then ?vars1
                else ?vars1(''EXISTING_USER'' := last (owners NEW_UID (passwd c)))"
  from reg have lines: "\<And>l. l \<in> set (passwd c) \<Longrightarrow> regular_line ru l \<and> no_stray NEW_UID l"
    and groups: "\<And>l. l \<in> set (group c) \<Longrightarrow> regular_group_line l"
    by (simp_all add: regular_def list_all_iff)
  have ru: "?vars0 ''REMOTE_USER'' = ru" by simp
  have step1: "eval (sed_n (sed_user ru []) (passwd c)) ?vars0 = ?vars1"
    by (rule eval_user) (simp add: lines, rule one)
  have uid: "?vars1 ''NEW_UID'' = NEW_UID" by simp
  have step2: "eval (sed_n (sed_owner ''EXISTING_USER'' NEW_UID []) (passwd c)) ?vars1 = ?vars2"
  proof (rule eval_owners)
    show "shell_name ''EXISTING_USER''" by (rule shell_name_EXISTING)
    show "sed_owner ''EXISTING_USER'' NEW_UID [] (split_colon l)
        = (if nth_field 2 l = NEW_UID then Some (''EXISTING_USER'' @ ''='' @ nth_field 0 l) else None)"
      if "l \<in> set (passwd c)" for l
      using lines [OF that] by (intro sed_owner_regular) auto
    show "plain (nth_field 0 l)" if "l \<in> set (passwd c)" for l
      using lines [OF that] by (simp add: regular_line_def)
  qed
  have gid: "?vars2 ''NEW_GID'' = NEW_GID" by simp
  have step3: "eval (sed_n (sed_owner ''EXISTING_GROUP'' NEW_GID []) (group c)) ?vars2
      = (if owners NEW_GID (group c) = [] then ?vars2
         else ?vars2(''EXISTING_GROUP'' := last (owners NEW_GID (group c))))"
  proof (rule eval_owners)
    show "shell_name ''EXISTING_GROUP''" by (rule shell_name_EXISTING)
    show "sed_owner ''EXISTING_GROUP'' NEW_GID [] (split_colon l)
        = (if nth_field 2 l = NEW_GID then Some (''EXISTING_GROUP'' @ ''='' @ nth_field 0 l) else None)"
      if "l \<in> set (group c)" for l
      using groups [OF that] by (rule sed_owner_group)
    show "plain (nth_field 0 l)" if "l \<in> set (group c)" for l
      using groups [OF that] by (simp add: regular_group_line_def)
  qed
  show ?thesis
    unfolding lookups_def Let_def ru step1 uid step2 gid step3 ..
qed

text \<open>
  What the lookups find in a regular database with one entry of the remote user: the
  ids and the home folder of that entry, the last user that owns the new UID and the
  last group that owns the new GID (the empty text when there is none).
\<close>

lemma lookups_values:
  assumes "regular ru NEW_UID c" "entries ru (passwd c) = [entry]"
  shows "lookups ru NEW_UID NEW_GID c ''REMOTE_USER'' = ru"
    and "lookups ru NEW_UID NEW_GID c ''NEW_UID'' = NEW_UID"
    and "lookups ru NEW_UID NEW_GID c ''NEW_GID'' = NEW_GID"
    and "lookups ru NEW_UID NEW_GID c ''OLD_UID'' = nth_field 2 entry"
    and "lookups ru NEW_UID NEW_GID c ''OLD_GID'' = nth_field 3 entry"
    and "lookups ru NEW_UID NEW_GID c ''HOME_FOLDER'' = nth_field 5 entry"
    and "lookups ru NEW_UID NEW_GID c ''EXISTING_USER''
           = (if owners NEW_UID (passwd c) = [] then [] else last (owners NEW_UID (passwd c)))"
    and "lookups ru NEW_UID NEW_GID c ''EXISTING_GROUP''
           = (if owners NEW_GID (group c) = [] then [] else last (owners NEW_GID (group c)))"
  by (simp_all add: lookups_regular [OF assms] Let_def)

subsection \<open>The branches of the script on a regular database\<close>

lemma regular_entry:
  assumes "regular ru NEW_UID c" "entries ru (passwd c) = [entry]"
  shows "regular_line ru entry" "split_colon entry ! 3 = nth_field 3 entry"
    "nth_field 2 entry \<noteq> []" "nth_field 3 entry \<noteq> []" "plain (nth_field 5 entry)"
    "decimal (nth_field 3 entry)"
proof -
  from assms(2) have "entry \<in> set (passwd c)" by (simp add: entries_member)
  with assms(1) show line: "regular_line ru entry" by (simp add: regular_def list_all_iff)
  then show "split_colon entry ! 3 = nth_field 3 entry"
    by (simp add: regular_line_def nth_field_def)
  from line show "nth_field 2 entry \<noteq> []" "nth_field 3 entry \<noteq> []"
    "plain (nth_field 5 entry)" "decimal (nth_field 3 entry)"
    by (simp_all add: regular_line_def decimal_def)
qed

lemma owners_plain:
  assumes "\<And>l. l \<in> set lines \<Longrightarrow> plain (nth_field 0 l)" "owners ident lines \<noteq> []"
  shows "last (owners ident lines) \<noteq> []"
proof -
  from assms(2) have "last (owners ident lines) \<in> set (owners ident lines)" by (rule last_in_set)
  then obtain l where "l \<in> set lines" "last (owners ident lines) = nth_field 0 l"
    by (auto simp: owners_def)
  with assms(1) show ?thesis by (auto simp: plain_def)
qed

lemma script_same:
  assumes reg: "regular ru NEW_UID c" and one: "entries ru (passwd c) = [entry]"
    and same: "nth_field 2 entry = NEW_UID" "nth_field 3 entry = NEW_GID"
  shows "UPDATE_UID_GID_SCRIPT ru NEW_UID NEW_GID c
     = c\<lparr>echoed := echoed c
           @ [''UIDs and GIDs are the same ('' @ NEW_UID @ '':'' @ NEW_GID @ '').'']\<rparr>"
  using regular_entry(3) [OF reg one] same
  by (simp add: UPDATE_UID_GID_SCRIPT_def Let_def lookups_values(1-6) [OF reg one])

lemma script_uid_collision:
  assumes reg: "regular ru NEW_UID c" and one: "entries ru (passwd c) = [entry]"
    and other: "nth_field 2 entry \<noteq> NEW_UID" and owned: "owners NEW_UID (passwd c) \<noteq> []"
  shows "UPDATE_UID_GID_SCRIPT ru NEW_UID NEW_GID c
     = c\<lparr>echoed := echoed c
           @ [''User with UID exists ('' @ last (owners NEW_UID (passwd c)) @ ''=''
                @ NEW_UID @ '').'']\<rparr>"
proof -
  from reg have "\<And>l. l \<in> set (passwd c) \<Longrightarrow> plain (nth_field 0 l)"
    by (simp add: regular_def list_all_iff regular_line_def)
  then have "last (owners NEW_UID (passwd c)) \<noteq> []" using owned by (rule owners_plain)
  with regular_entry(3) [OF reg one] other owned show ?thesis
    by (simp add: UPDATE_UID_GID_SCRIPT_def Let_def lookups_values(1-7) [OF reg one])
qed

lemma sed_passwd_regular:
  assumes reg: "regular ru NEW_UID c" and one: "entries ru (passwd c) = [entry]"
    and ru: "ru \<noteq> []" "last ru \<notin> set ''0123456789''"
  shows "sed_passwd ru u (nth_field 3 entry) (passwd c)
     = map (\<lambda>l. if nth_field 0 l = ru then join_colon ((split_colon l)[2 := u]) else l) (passwd c)"
  unfolding sed_passwd_def
proof (rule map_cong [OF refl])
  fix l assume l: "l \<in> set (passwd c)"
  with reg have line: "regular_line ru l" by (simp add: regular_def list_all_iff)
  show "join_colon (set_ids ru u (nth_field 3 entry) (split_colon l))
      = (if nth_field 0 l = ru then join_colon ((split_colon l)[2 := u]) else l)"
  proof (cases "nth_field 0 l = ru")
    case True
    with one l have "l = entry" by (simp add: entries_only)
    with regular_entry(2) [OF reg one]
    have "(split_colon l)[2 := u, 3 := nth_field 3 entry] = (split_colon l)[2 := u]"
      by (metis list_update_id list_update_swap n_not_Suc_n numeral_3_eq_3 numeral_2_eq_2)
    with True line ru show ?thesis by (simp add: set_ids_regular)
  next
    case False
    with line ru show ?thesis by (simp add: set_ids_regular join_split_colon)
  qed
qed

lemma chown_words:
  assumes "decimal u" "decimal g" "plain h"
  shows "shell_words (u @ '':'' @ g @ '' '' @ h) = [u @ '':'' @ g, h]"
proof -
  have colon: "\<not> blank (CHR '':'')" by (simp add: blank_def)
  have "\<not> blank x" if "x \<in> set (u @ '':'' @ g)" for x
  proof -
    from that consider "x \<in> set u" | "x = CHR '':''" | "x \<in> set g" by auto
    then show ?thesis
    proof cases
      case 1 with assms(1) show ?thesis using plain_ordinary decimal_plain by blast
    next
      case 2 with colon show ?thesis by simp
    next
      case 3 with assms(2) show ?thesis using plain_ordinary decimal_plain by blast
    qed
  qed
  moreover have "\<not> blank x" if "x \<in> set h" for x
    using that assms(3) plain_ordinary by blast
  moreover from assms have "u @ '':'' @ g \<noteq> []" "h \<noteq> []" by (simp_all add: plain_def)
  ultimately have "shell_words ((u @ '':'' @ g) @ '' '' @ h) = [u @ '':'' @ g, h]"
    by (intro shell_words_pair) auto
  then show ?thesis by simp
qed

lemma script_gid_collision:
  assumes reg: "regular ru NEW_UID c" and one: "entries ru (passwd c) = [entry]"
    and ru: "ru \<noteq> []" "last ru \<notin> set ''0123456789''"
    and uid: "decimal NEW_UID"
    and free: "nth_field 2 entry = NEW_UID \<or> owners NEW_UID (passwd c) = []"
    and other: "nth_field 3 entry \<noteq> NEW_GID" and owned: "owners NEW_GID (group c) \<noteq> []"
  shows "passwd (UPDATE_UID_GID_SCRIPT ru NEW_UID NEW_GID c)
       = map (\<lambda>l. if nth_field 0 l = ru then join_colon ((split_colon l)[2 := NEW_UID]) else l)
           (passwd c)"
    and "group (UPDATE_UID_GID_SCRIPT ru NEW_UID NEW_GID c) = group c"
    and "echoed (UPDATE_UID_GID_SCRIPT ru NEW_UID NEW_GID c)
       = echoed c
         @ [''Group with GID exists ('' @ last (owners NEW_GID (group c)) @ ''='' @ NEW_GID @ '').'',
            ''Updating UID:GID from '' @ nth_field 2 entry @ '':'' @ nth_field 3 entry
              @ '' to '' @ NEW_UID @ '':'' @ nth_field 3 entry @ ''.'']"
    and "chowned (UPDATE_UID_GID_SCRIPT ru NEW_UID NEW_GID c)
       = chowned c @ [[NEW_UID @ '':'' @ nth_field 3 entry, nth_field 5 entry]]"
proof -
  let ?vars = "lookups ru NEW_UID NEW_GID c"
  note vals = lookups_values [OF reg one, of NEW_GID]
  from reg have "\<And>l. l \<in> set (group c) \<Longrightarrow> plain (nth_field 0 l)"
    by (simp add: regular_def list_all_iff regular_group_line_def)
  then have group_name: "last (owners NEW_GID (group c)) \<noteq> []" using owned by (rule owners_plain)
  have branch: "UPDATE_UID_GID_SCRIPT ru NEW_UID NEW_GID c = update_ids ?vars c"
    using regular_entry(3) [OF reg one] free other
    by (auto simp: UPDATE_UID_GID_SCRIPT_def Let_def vals)
  have collision: "?vars ''OLD_GID'' \<noteq> ?vars ''NEW_GID'' \<and> ?vars ''EXISTING_GROUP'' \<noteq> []"
    using other owned group_name by (simp add: vals)
  have words: "shell_words (NEW_UID @ '':'' @ nth_field 3 entry @ '' '' @ nth_field 5 entry)
      = [NEW_UID @ '':'' @ nth_field 3 entry, nth_field 5 entry]"
    using uid regular_entry(6,5) [OF reg one] by (rule chown_words)
  show "passwd (UPDATE_UID_GID_SCRIPT ru NEW_UID NEW_GID c)
       = map (\<lambda>l. if nth_field 0 l = ru then join_colon ((split_colon l)[2 := NEW_UID]) else l)
           (passwd c)"
    unfolding branch using collision
    by (simp add: update_ids_def Let_def vals sed_passwd_regular [OF reg one ru])
  show "group (UPDATE_UID_GID_SCRIPT ru NEW_UID NEW_GID c) = group c"
    unfolding branch using collision by (simp add: update_ids_def Let_def vals)
  show "echoed (UPDATE_UID_GID_SCRIPT ru NEW_UID NEW_GID c)
       = echoed c
         @ [''Group with GID exists ('' @ last (owners NEW_GID (group c)) @ ''='' @ NEW_GID @ '').'',
            ''Updating UID:GID from '' @ nth_field 2 entry @ '':'' @ nth_field 3 entry
              @ '' to '' @ NEW_UID @ '':'' @ nth_field 3 entry @ ''.'']"
    unfolding branch using collision owned by (simp add: update_ids_def Let_def vals)
  show "chowned (UPDATE_UID_GID_SCRIPT ru NEW_UID NEW_GID c)
       = chowned c @ [[NEW_UID @ '':'' @ nth_field 3 entry, nth_field 5 entry]]"
    unfolding branch using collision words by (simp add: update_ids_def Let_def vals)
qed
subsection \<open>The Go side: updateContainerUserUidGid and cloneWorkspaceRepository\<close>

text \<open>
  The Go code talks to the Docker daemon, the host and the remote shell. What they
  answer in the run that is modelled is a field of \<open>docker\<close> (the \<^verbatim>\<open>DockerClient\<close> with
  its host) or of \<open>ssh_client\<close>: the result of \<^verbatim>\<open>user.Current\<close>, of \<^verbatim>\<open>os.MkdirAll\<close>, of
  the calls of the Docker API, the user database of a fresh container of an image, and
  the results of the functions of the package that are defined in other files
  (\<^verbatim>\<open>PullImage\<close>, \<^verbatim>\<open>DetectWorkspaceBuilderType\<close>, \<^verbatim>\<open>CreateFromDevcontainer\<close>).
  \<^verbatim>\<open>ExecSync\<close> either fails with an error of the API before the command runs, or runs
  the command to its end; the Go code does not read the exit code of the script.
  \<^verbatim>\<open>GetContainerLogs\<close> is called again and again by the goroutine of
  \<^verbatim>\<open>cloneWorkspaceRepository\<close>: its answer depends on the number of the call, counted
  from 0. The fields \<open>overwritten\<close>, \<open>landed_test\<close> and \<open>landed_return\<close> say how the
  assignments of that goroutine and of its caller to the variable \<^verbatim>\<open>err\<close>, which they
  share, fell in the run, and \<open>ExecSync_failed_res\<close> is the result that \<^verbatim>\<open>ExecSync\<close>
  returns together with an error; they are explained with the function.

  Of the options and the workspace the records keep the fields that decide a branch.
  \<open>world\<close> is what a run leaves behind: the images pulled, the lines written to the
  log writer by the script, the user of each clone command, and the containers removed.
\<close>

record ssh_client =
  GetUserUidGid :: "error + string \<times> string"
  Exec_mkdir :: "error option"

record 'b Workspace =
  ws_Image :: string
  ws_BuildConfig :: "'b option"

record 'b CreateWorkspaceOptions =
  Workspace :: "'b Workspace"
  BuilderImage :: string
  SshClient :: "ssh_client option"

datatype BuilderType = BuilderTypeDevcontainer | BuilderTypeImage | BuilderTypeOther string

record world =
  pulled :: "string list"
  logged :: "string list"
  clone_users :: "string list"
  removed :: "string list"

record docker =
  GOOS :: string
  user_Current :: "error + string \<times> string"
  MkdirAll :: "error option"
  PullImage_result :: "string \<Rightarrow> error option"
  ContainerCreate :: "error + string"
  image_passwd :: "string \<Rightarrow> string list"
  image_group :: "string \<Rightarrow> string list"
  ContainerStart :: "error option"
  ExecSync_script :: "error option"
  ExecSync_clone :: "string \<Rightarrow> error + int"
  DetectWorkspaceBuilderType :: "error + BuilderType"
  CreateFromDevcontainer :: "world \<Rightarrow> error option \<times> world"
  initWorkspaceContainer :: "bool \<Rightarrow> error option"
  GetContainerLogs :: "nat \<Rightarrow> error option"
  overwritten :: "nat \<Rightarrow> error option option"
  landed_test :: "nat option"
  landed_return :: "nat option"
  ExecSync_failed_res :: "int option"

text \<open>
  \<^verbatim>\<open>
  func (d *DockerClient) updateContainerUserUidGid(containerId string, opts *CreateWorkspaceOptions) (string, error) {
      currentUser, err := user.Current()
      if err != nil { return "", err }
      containerUser := "daytona"
      newUid := currentUser.Uid
      newGid := currentUser.Gid
      if opts.SshClient != nil {
          newUid, newGid, err = opts.SshClient.GetUserUidGid()
          if err != nil { return "", err }
      }
      if newUid == "0" && newGid == "0" { containerUser = "root" }
      if containerUser != "root" {
          _, err = d.ExecSync(containerId, container.ExecOptions{User: "root",
              Cmd: []string{"sh", "-c", UPDATE_UID_GID_SCRIPT},
              Env: []string{"REMOTE_USER=" + containerUser, "NEW_UID=" + newUid, "NEW_GID=" + newGid}},
              opts.LogWriter)
          if err != nil { return "", err }
      }
      return containerUser, nil
  }
  \<close>
\<close>

definition target_ids :: "docker \<Rightarrow> 'b CreateWorkspaceOptions \<Rightarrow> error + string \<times> string" where
  "target_ids d opts =
     bind_res (user_Current d) (\<lambda>currentUser.
       case SshClient opts of None \<Rightarrow> Inr currentUser | Some c \<Rightarrow> GetUserUidGid c)"

definition updateContainerUserUidGid ::
  "docker \<Rightarrow> 'b CreateWorkspaceOptions \<Rightarrow> container \<Rightarrow> (error + string) \<times> container" where
  "updateContainerUserUidGid d opts c =
     (case target_ids d opts of
        Inl err \<Rightarrow> (Inl err, c)
      | Inr (newUid, newGid) \<Rightarrow>
          (let containerUser = (if newUid = ''0'' \<and> newGid = ''0'' then ''root'' else ''daytona'')
           in if containerUser \<noteq> ''root'' then
                (case ExecSync_script d of
                   Some err \<Rightarrow> (Inl err, c)
                 | None \<Rightarrow> (Inr containerUser, UPDATE_UID_GID_SCRIPT containerUser newUid newGid c))
              else (Inr containerUser, c)))"

text \<open>
  \<^verbatim>\<open>cloneWorkspaceRepository\<close> (lines 75-160) makes the directory, creates and starts a
  container from the builder image, starts the goroutine that copies the log, patches
  the ids unless the host is Windows, and runs the clone command as the user that the
  patch returned. The error of the patch is overwritten by the next assignment to
  \<^verbatim>\<open>err\<close> and so never returned; the user is then the empty string. The deferred
  \<^verbatim>\<open>RemoveContainer\<close> runs on every path after the container was created.
\<close>

definition show_int :: "int \<Rightarrow> string" where
  "show_int i = (if i < 0 then CHR ''-'' # itoa (nat (- i)) else itoa (nat i))"

definition mkdir_workspace :: "docker \<Rightarrow> 'b CreateWorkspaceOptions \<Rightarrow> error option" where
  "mkdir_workspace d opts = (case SshClient opts of Some c \<Rightarrow> Exec_mkdir c | None \<Rightarrow> MkdirAll d)"

definition clone_user ::
  "docker \<Rightarrow> 'b CreateWorkspaceOptions \<Rightarrow> container \<Rightarrow> string \<times> container" where
  "clone_user d opts c =
     (if GOOS d \<noteq> ''windows'' then
        (case updateContainerUserUidGid d opts c of
           (Inl err, c') \<Rightarrow> ([], c')
         | (Inr containerUser, c') \<Rightarrow> (containerUser, c'))
      else (''daytona'', c))"

text \<open>
  \<^verbatim>\<open>
  go func() {
      for {
          err = d.GetContainerLogs(c.ID, opts.LogWriter)
          if err == nil { break }
          log.Error(err)
          time.Sleep(100 * time.Millisecond)
      }
  }()
  \<close>
  The goroutine assigns to the variable \<^verbatim>\<open>err\<close> of the function that starts it, and
  nothing orders its assignments and those of that function, or makes the function wait
  for it: the function returns while the goroutine runs on. A thread reads from \<^verbatim>\<open>err\<close>
  what it has assigned last itself, unless an assignment of the other thread came after
  that. Which assignments did is a matter of the run, like the answers of the daemon:
  \<^item> \<open>overwritten d n = Some v\<close>: in turn \<open>n\<close> of the loop the caller assigned \<open>v\<close> between
    the assignment of the goroutine and its test;
  \<^item> \<open>landed_test d = Some n\<close>: the assignment of turn \<open>n\<close> came between the assignment
    of the result of \<^verbatim>\<open>ExecSync\<close> and the test \<^verbatim>\<open>err != nil\<close> of the caller;
  \<^item> \<open>landed_return d = Some n\<close>: the assignment of turn \<open>n\<close> came between that test and
    the \<^verbatim>\<open>return err\<close> after it, which reads the variable once more.

  \<open>stream_logs\<close> is the loop, as a function of what its tests read and the number of the
  turn: it returns the number of the turn that leaves the loop, which is also the number
  of errors logged and of pauses of 100 ms made before; it has no value when the loop
  never ends.
\<close>

definition goroutine_tests :: "docker \<Rightarrow> nat \<Rightarrow> error option" where
  "goroutine_tests d n = (case overwritten d n of Some v \<Rightarrow> v | None \<Rightarrow> GetContainerLogs d n)"

partial_function (option) stream_logs :: "(nat \<Rightarrow> error option) \<Rightarrow> nat \<Rightarrow> nat option" where
  "stream_logs tests n = (case tests n of None \<Rightarrow> Some n | Some err \<Rightarrow> stream_logs tests (Suc n))"

text \<open>
  \<^verbatim>\<open>
  containerUser := "daytona"
  if runtime.GOOS != "windows" {
      containerUser, err = d.updateContainerUserUidGid(c.ID, opts)
  }
  res, err := d.ExecSync(c.ID, container.ExecOptions{User: containerUser,
      Cmd: append([]string{"sh", "-c"}, strings.Join(cloneCmd, " "))}, opts.LogWriter)
  if err != nil { return err }
  if res.ExitCode != 0 { return fmt.Errorf("git clone failed with exit code %d", res.ExitCode) }
  return nil
  \<close>
  \<^verbatim>\<open>res, err :=\<close> declares \<^verbatim>\<open>res\<close> and assigns to the \<^verbatim>\<open>err\<close> of the function, the variable
  of the goroutine. \<open>err_test\<close> and \<open>err_return\<close> are what the two reads of the caller
  find there. When the test finds nil although \<^verbatim>\<open>ExecSync\<close> failed, the caller reads the
  exit code of the result that came with the error, \<open>ExecSync_failed_res\<close>, which may be
  nil.
\<close>

definition err_test :: "docker \<Rightarrow> error option \<Rightarrow> error option" where
  "err_test d own = (case landed_test d of None \<Rightarrow> own | Some n \<Rightarrow> GetContainerLogs d n)"

definition err_return :: "docker \<Rightarrow> error option \<Rightarrow> error option" where
  "err_return d own =
     (case landed_return d of None \<Rightarrow> err_test d own | Some n \<Rightarrow> GetContainerLogs d n)"

definition clone_in_container ::
  "docker \<Rightarrow> 'b CreateWorkspaceOptions \<Rightarrow> world \<Rightarrow> error option \<times> world" where
  "clone_in_container d opts w =
     (case ContainerStart d of
        Some err \<Rightarrow> (Some err, w)
      | None \<Rightarrow>
          (let (containerUser, c) = clone_user d opts
                 \<lparr>passwd = image_passwd d (BuilderImage opts),
                  group = image_group d (BuilderImage opts), echoed = [], chowned = []\<rparr>;
               w' = w\<lparr>logged := logged w @ echoed c,
                       clone_users := clone_users w @ [containerUser]\<rparr>;
               (res, own) = (case ExecSync_clone d containerUser of
                               Inl err \<Rightarrow> (ExecSync_failed_res d, Some err)
                             | Inr ExitCode \<Rightarrow> (Some ExitCode, None))
           in if err_test d own \<noteq> None then (err_return d own, w')
              else (case res of
                      None \<Rightarrow> (Some (Panic ''invalid memory address or nil pointer dereference''), w')
                    | Some ExitCode \<Rightarrow>
                        if ExitCode \<noteq> 0
                        then (Some (Failure (''git clone failed with exit code ''
                                              @ show_int ExitCode)), w')
                        else (None, w'))))"

definition cloneWorkspaceRepository ::
  "docker \<Rightarrow> 'b CreateWorkspaceOptions \<Rightarrow> world \<Rightarrow> error option \<times> world" where
  "cloneWorkspaceRepository d opts w =
     (case mkdir_workspace d opts of
        Some err \<Rightarrow> (Some err, w)
      | None \<Rightarrow>
          (case ContainerCreate d of
             Inl err \<Rightarrow> (Some err, w)
           | Inr ID \<Rightarrow>
               (let (err, w') = clone_in_container d opts w
                in (err, w'\<lparr>removed := removed w' @ [ID]\<rparr>))))"

subsection \<open>The patch as the Go code runs it\<close>

lemma updateContainerUserUidGid_runs_script:
  assumes "target_ids d opts = Inr (NEW_UID, NEW_GID)" "\<not> (NEW_UID = ''0'' \<and> NEW_GID = ''0'')"
    "ExecSync_script d = None"
  shows "updateContainerUserUidGid d opts c
           = (Inr ''daytona'', UPDATE_UID_GID_SCRIPT ''daytona'' NEW_UID NEW_GID c)"
  using assms by (auto simp: updateContainerUserUidGid_def Let_def)

lemma updateContainerUserUidGid_cases:
  assumes "target_ids d opts = Inr (NEW_UID, NEW_GID)"
  shows "snd (updateContainerUserUidGid d opts c) = c
       \<or> snd (updateContainerUserUidGid d opts c) = UPDATE_UID_GID_SCRIPT ''daytona'' NEW_UID NEW_GID c"
  using assms by (auto simp: updateContainerUserUidGid_def Let_def split: option.splits)

lemma daytona_name: "''daytona'' \<noteq> []" "last ''daytona'' \<notin> set ''0123456789''"
  by simp_all

text \<open>
  Two runs of the script on databases that are not regular show what the conditions
  keep out. In the first the user \<^verbatim>\<open>foo\<close> has the new UID 501 for its GID: the second
  \<^verbatim>\<open>sed\<close> prints \<^verbatim>\<open>EXISTING_USER=bob\<close> and \<^verbatim>\<open>foo:EXISTING_USER=x\<close>, the shell takes the
  second word for the name of a program, the assignment in front of it is lost, and the
  script gives \<^verbatim>\<open>daytona\<close> the UID of \<^verbatim>\<open>bob\<close> without a word. In the second the home
  folder has a blank in it: the shell takes \<^verbatim>\<open>folder\<close> for the name of a program,
  \<^verbatim>\<open>HOME_FOLDER\<close> stays unset, and \<^verbatim>\<open>chown\<close> is called without a folder.
\<close>

lemma script_stray_gid:
  "UPDATE_UID_GID_SCRIPT ''daytona'' ''501'' ''20''
     \<lparr>passwd = [''daytona:x:1000:1000::/home/daytona:/bin/zsh'',
                ''bob:x:501:501::/home/bob:/bin/sh'', ''foo:x:5:501::/home/foo:/bin/sh''],
      group = [''daytona:x:1000:'', ''bob:x:501:''], echoed = [], chowned = []\<rparr>
   = \<lparr>passwd = [''daytona:x:501:20::/home/daytona:/bin/zsh'',
                ''bob:x:501:501::/home/bob:/bin/sh'', ''foo:x:5:501::/home/foo:/bin/sh''],
      group = [''daytona:x:20:'', ''bob:x:501:''],
      echoed = [''Updating UID:GID from 1000:1000 to 501:20.''],
      chowned = [[''501:20'', ''/home/daytona'']]\<rparr>"
  by code_simp

lemma script_home_with_blank:
  "UPDATE_UID_GID_SCRIPT ''daytona'' ''501'' ''20''
     \<lparr>passwd = [''daytona:x:1000:1000::/home/my folder:/bin/zsh''],
      group = [''daytona:x:1000:''], echoed = [], chowned = []\<rparr>
   = \<lparr>passwd = [''daytona:x:501:20::/home/my folder:/bin/zsh''],
      group = [''daytona:x:20:''],
      echoed = [''Updating UID:GID from 1000:1000 to 501:20.''],
      chowned = [[''501:20'']]\<rparr>"
  by code_simp

text \<open>
  Claim C1, as amended. The script treats the two collisions differently. Let
  \<^verbatim>\<open>updateContainerUserUidGid\<close> run the script for a target other than root, with decimal
  ids, in a container whose user database is regular: every line of \<^verbatim>\<open>/etc/passwd\<close> has
  seven fields, a plain name, decimal ids and a plain home folder, only the entry of
  \<^verbatim>\<open>daytona\<close> has a name or a password field that ends in \<^verbatim>\<open>daytona\<close>, the new UID is the
  GID, comment or home folder of no user with another UID, and every line of
  \<^verbatim>\<open>/etc/group\<close> has four fields and a plain name. Let \<^verbatim>\<open>/etc/passwd\<close> have one entry for
  \<^verbatim>\<open>daytona\<close>. Then the function returns \<^verbatim>\<open>daytona\<close>, and:
  \<^item> When the new UID is not the UID of that entry and some user has it, the script
    echoes the collision with the last such user and changes nothing else: neither
    file, no ownership. Whether a group owns the new GID is not looked at.
  \<^item> When no user stands in the way (the new UID is the UID of the entry, or no user has
    it), the new GID is not the GID of the entry and some group has it, the script
    echoes the collision with the last such group, puts the new UID into the entry of
    \<^verbatim>\<open>daytona\<close> and leaves its GID, every other line of \<^verbatim>\<open>/etc/passwd\<close> and all of
    \<^verbatim>\<open>/etc/group\<close> as they were, and hands the home folder of the entry to the new UID and
    the old GID.
\<close>

theorem updateContainerUserUidGid_collisions:
  assumes target: "target_ids d opts = Inr (NEW_UID, NEW_GID)"
    and not_root: "\<not> (NEW_UID = ''0'' \<and> NEW_GID = ''0'')"
    and ids: "decimal NEW_UID" "decimal NEW_GID"
    and exec: "ExecSync_script d = None"
    and reg: "regular ''daytona'' NEW_UID c"
    and one: "entries ''daytona'' (passwd c) = [entry]"
    and result: "updateContainerUserUidGid d opts c = (r, c')"
  shows "r = Inr ''daytona''
       \<and> (nth_field 2 entry \<noteq> NEW_UID \<and> owners NEW_UID (passwd c) \<noteq> [] \<longrightarrow>
            c' = c\<lparr>echoed := echoed c
                    @ [''User with UID exists ('' @ last (owners NEW_UID (passwd c)) @ ''=''
                         @ NEW_UID @ '').'']\<rparr>)
       \<and> ((nth_field 2 entry = NEW_UID \<or> owners NEW_UID (passwd c) = [])
            \<and> nth_field 3 entry \<noteq> NEW_GID \<and> owners NEW_GID (group c) \<noteq> [] \<longrightarrow>
            passwd c'
              = map (\<lambda>l. if nth_field 0 l = ''daytona''
                          then join_colon ((split_colon l)[2 := NEW_UID]) else l) (passwd c)
          \<and> group c' = group c
          \<and> echoed c' = echoed c
                @ [''Group with GID exists ('' @ last (owners NEW_GID (group c)) @ ''=''
                     @ NEW_GID @ '').'',
                   ''Updating UID:GID from '' @ nth_field 2 entry @ '':'' @ nth_field 3 entry
                     @ '' to '' @ NEW_UID @ '':'' @ nth_field 3 entry @ ''.'']
          \<and> chowned c' = chowned c @ [[NEW_UID @ '':'' @ nth_field 3 entry, nth_field 5 entry]])"
proof -
  from updateContainerUserUidGid_runs_script [OF target not_root exec, of c] result
  have r: "r = Inr ''daytona''" and c': "c' = UPDATE_UID_GID_SCRIPT ''daytona'' NEW_UID NEW_GID c"
    by simp_all
  have user: "c' = c\<lparr>echoed := echoed c
        @ [''User with UID exists ('' @ last (owners NEW_UID (passwd c)) @ ''=''
             @ NEW_UID @ '').'']\<rparr>"
    if "nth_field 2 entry \<noteq> NEW_UID \<and> owners NEW_UID (passwd c) \<noteq> []"
    unfolding c' using that by (intro script_uid_collision [OF reg one]) simp_all
  have grp: "passwd c'
              = map (\<lambda>l. if nth_field 0 l = ''daytona''
                          then join_colon ((split_colon l)[2 := NEW_UID]) else l) (passwd c)
          \<and> group c' = group c
          \<and> echoed c' = echoed c
                @ [''Group with GID exists ('' @ last (owners NEW_GID (group c)) @ ''=''
                     @ NEW_GID @ '').'',
                   ''Updating UID:GID from '' @ nth_field 2 entry @ '':'' @ nth_field 3 entry
                     @ '' to '' @ NEW_UID @ '':'' @ nth_field 3 entry @ ''.'']
          \<and> chowned c' = chowned c @ [[NEW_UID @ '':'' @ nth_field 3 entry, nth_field 5 entry]]"
    if a: "(nth_field 2 entry = NEW_UID \<or> owners NEW_UID (passwd c) = [])
            \<and> nth_field 3 entry \<noteq> NEW_GID \<and> owners NEW_GID (group c) \<noteq> []"
  proof -
    from a have free: "nth_field 2 entry = NEW_UID \<or> owners NEW_UID (passwd c) = []"
      and other: "nth_field 3 entry \<noteq> NEW_GID" and owned: "owners NEW_GID (group c) \<noteq> []"
      by simp_all
    note branch = script_gid_collision [OF reg one daytona_name ids(1) free other owned, folded c']
    from branch(1) branch(2) branch(3) branch(4) show ?thesis by (intro conjI)
  qed
  from r user grp show ?thesis by blast
qed

theorem updateContainerUserUidGid_collisions_witness:
  "fst (updateContainerUserUidGid
        \<lparr>GOOS = ''linux'', user_Current = Inr (''501'', ''50''), MkdirAll = None,
         PullImage_result = (\<lambda>img. None), ContainerCreate = Inr ''c1'',
         image_passwd = (\<lambda>img. []), image_group = (\<lambda>img. []), ContainerStart = None,
         ExecSync_script = None, ExecSync_clone = (\<lambda>u. Inr 0),
         DetectWorkspaceBuilderType = Inr BuilderTypeImage,
         CreateFromDevcontainer = (\<lambda>w. (None, w)), initWorkspaceContainer = (\<lambda>m. None),
         GetContainerLogs = (\<lambda>n. None), overwritten = (\<lambda>n. None), landed_test = None,
         landed_return = None, ExecSync_failed_res = None\<rparr>
        \<lparr>Workspace = \<lparr>ws_Image = ''ubuntu:22.04'', ws_BuildConfig = Some ()\<rparr>,
         BuilderImage = ''builder:latest'', SshClient = None\<rparr>
        \<lparr>passwd = [''root:x:0:0:root:/root:/bin/bash'',
                   ''daytona:x:1000:1000:Daytona User:/home/daytona:/bin/zsh''],
         group = [''root:x:0:'', ''staff:x:50:'', ''daytona:x:1000:''],
         echoed = [], chowned = []\<rparr>) = Inr ''daytona''
   \<and> snd (updateContainerUserUidGid
        \<lparr>GOOS = ''linux'', user_Current = Inr (''501'', ''50''), MkdirAll = None,
         PullImage_result = (\<lambda>img. None), ContainerCreate = Inr ''c1'',
         image_passwd = (\<lambda>img. []), image_group = (\<lambda>img. []), ContainerStart = None,
         ExecSync_script = None, ExecSync_clone = (\<lambda>u. Inr 0),
         DetectWorkspaceBuilderType = Inr BuilderTypeImage,
         CreateFromDevcontainer = (\<lambda>w. (None, w)), initWorkspaceContainer = (\<lambda>m. None),
         GetContainerLogs = (\<lambda>n. None), overwritten = (\<lambda>n. None), landed_test = None,
         landed_return = None, ExecSync_failed_res = None\<rparr>
        \<lparr>Workspace = \<lparr>ws_Image = ''ubuntu:22.04'', ws_BuildConfig = Some ()\<rparr>,
         BuilderImage = ''builder:latest'', SshClient = None\<rparr>
        \<lparr>passwd = [''root:x:0:0:root:/root:/bin/bash'',
                   ''daytona:x:1000:1000:Daytona User:/home/daytona:/bin/zsh''],
         group = [''root:x:0:'', ''staff:x:50:'', ''daytona:x:1000:''],
         echoed = [], chowned = []\<rparr>)
     = \<lparr>passwd = [''root:x:0:0:root:/root:/bin/bash'',
                  ''daytona:x:501:1000:Daytona User:/home/daytona:/bin/zsh''],
        group = [''root:x:0:'', ''staff:x:50:'', ''daytona:x:1000:''],
        echoed = [''Group with GID exists (staff=50).'',
                  ''Updating UID:GID from 1000:1000 to 501:1000.''],
        chowned = [[''501:1000'', ''/home/daytona'']]\<rparr>"
proof -
  let ?d = "\<lparr>GOOS = ''linux'', user_Current = Inr (''501'', ''50''), MkdirAll = None,
         PullImage_result = (\<lambda>img. None), ContainerCreate = Inr ''c1'',
         image_passwd = (\<lambda>img. []), image_group = (\<lambda>img. []), ContainerStart = None,
         ExecSync_script = None, ExecSync_clone = (\<lambda>u. Inr 0),
         DetectWorkspaceBuilderType = Inr BuilderTypeImage,
         CreateFromDevcontainer = (\<lambda>w. (None, w)), initWorkspaceContainer = (\<lambda>m. None),
         GetContainerLogs = (\<lambda>n. None), overwritten = (\<lambda>n. None), landed_test = None,
         landed_return = None, ExecSync_failed_res = None\<rparr>"
  let ?opts = "\<lparr>Workspace = \<lparr>ws_Image = ''ubuntu:22.04'', ws_BuildConfig = Some ()\<rparr>,
         BuilderImage = ''builder:latest'', SshClient = None\<rparr>"
  let ?c = "\<lparr>passwd = [''root:x:0:0:root:/root:/bin/bash'',
                   ''daytona:x:1000:1000:Daytona User:/home/daytona:/bin/zsh''],
         group = [''root:x:0:'', ''staff:x:50:'', ''daytona:x:1000:''],
         echoed = [], chowned = []\<rparr>"
  let ?entry = "''daytona:x:1000:1000:Daytona User:/home/daytona:/bin/zsh''"
  let ?run = "updateContainerUserUidGid ?d ?opts ?c"
  have target: "target_ids ?d ?opts = Inr (''501'', ''50'')" by (simp add: target_ids_def)
  have not_root: "\<not> (''501'' = ''0'' \<and> ''50'' = ''0'')" by simp
  have ids: "decimal ''501''" "decimal ''50''" by code_simp+
  have exec: "ExecSync_script ?d = None" by simp
  have reg: "regular ''daytona'' ''501'' ?c" by code_simp
  have one: "entries ''daytona'' (passwd ?c) = [?entry]" by code_simp
  have result: "?run = (fst ?run, snd ?run)" by simp
  have collision: "(nth_field 2 ?entry = ''501'' \<or> owners ''501'' (passwd ?c) = [])
      \<and> nth_field 3 ?entry \<noteq> ''50'' \<and> owners ''50'' (group ?c) \<noteq> []"
    by code_simp
  have written: "map (\<lambda>l. if nth_field 0 l = ''daytona''
                          then join_colon ((split_colon l)[2 := ''501'']) else l) (passwd ?c)
      = [''root:x:0:0:root:/root:/bin/bash'',
         ''daytona:x:501:1000:Daytona User:/home/daytona:/bin/zsh'']"
    by code_simp
  have said: "echoed ?c
                @ [''Group with GID exists ('' @ last (owners ''50'' (group ?c)) @ ''=''
                     @ ''50'' @ '').'',
                   ''Updating UID:GID from '' @ nth_field 2 ?entry @ '':'' @ nth_field 3 ?entry
                     @ '' to '' @ ''501'' @ '':'' @ nth_field 3 ?entry @ ''.'']
      = [''Group with GID exists (staff=50).'', ''Updating UID:GID from 1000:1000 to 501:1000.'']"
    by code_simp
  have owned: "chowned ?c @ [[''501'' @ '':'' @ nth_field 3 ?entry, nth_field 5 ?entry]]
      = [[''501:1000'', ''/home/daytona'']]"
    by code_simp
  have groups: "group ?c = [''root:x:0:'', ''staff:x:50:'', ''daytona:x:1000:'']" by simp
  from updateContainerUserUidGid_collisions [OF target not_root ids exec reg one result] collision
  have user: "fst ?run = Inr ''daytona''"
    and after: "passwd (snd ?run)
      = map (\<lambda>l. if nth_field 0 l = ''daytona''
                  then join_colon ((split_colon l)[2 := ''501'']) else l) (passwd ?c)"
      "group (snd ?run) = group ?c"
      "echoed (snd ?run) = echoed ?c
                @ [''Group with GID exists ('' @ last (owners ''50'' (group ?c)) @ ''=''
                     @ ''50'' @ '').'',
                   ''Updating UID:GID from '' @ nth_field 2 ?entry @ '':'' @ nth_field 3 ?entry
                     @ '' to '' @ ''501'' @ '':'' @ nth_field 3 ?entry @ ''.'']"
      "chowned (snd ?run) = chowned ?c @ [[''501'' @ '':'' @ nth_field 3 ?entry, nth_field 5 ?entry]]"
    by blast+
  note fields = trans [OF after(1) written] trans [OF after(2) groups] trans [OF after(3) said]
    trans [OF after(4) owned]
  have "snd ?run
     = \<lparr>passwd = [''root:x:0:0:root:/root:/bin/bash'',
                  ''daytona:x:501:1000:Daytona User:/home/daytona:/bin/zsh''],
        group = [''root:x:0:'', ''staff:x:50:'', ''daytona:x:1000:''],
        echoed = [''Group with GID exists (staff=50).'',
                  ''Updating UID:GID from 1000:1000 to 501:1000.''],
        chowned = [[''501:1000'', ''/home/daytona'']]\<rparr>"
    by (rule container.equality) (simp_all only: fields container.select_convs, simp)
  with user show ?thesis by (intro conjI)
qed

text \<open>
  The claim as it was stated promised the update of the UID for every target other than
  root whose GID an existing group owns. With the users \<^verbatim>\<open>daytona\<close> (1000:1000) and
  \<^verbatim>\<open>ubuntu\<close> (1001:1001) in the container and the target 1001:1001, the group \<^verbatim>\<open>ubuntu\<close>
  owns the new GID, and the script stops at the user \<^verbatim>\<open>ubuntu\<close>: the entry of \<^verbatim>\<open>daytona\<close>
  keeps the UID 1000, and the group is not mentioned.
\<close>

theorem updateContainerUserUidGid_collisions_counterexample:
  "owners ''1001'' [''daytona:x:1000:'', ''ubuntu:x:1001:''] = [''ubuntu'']
   \<and> updateContainerUserUidGid
     \<lparr>GOOS = ''linux'', user_Current = Inr (''1001'', ''1001''), MkdirAll = None,
      PullImage_result = (\<lambda>img. None), ContainerCreate = Inr ''c1'',
      image_passwd = (\<lambda>img. []), image_group = (\<lambda>img. []), ContainerStart = None,
      ExecSync_script = None, ExecSync_clone = (\<lambda>u. Inr 0),
      DetectWorkspaceBuilderType = Inr BuilderTypeImage,
      CreateFromDevcontainer = (\<lambda>w. (None, w)), initWorkspaceContainer = (\<lambda>m. None),
      GetContainerLogs = (\<lambda>n. None), overwritten = (\<lambda>n. None), landed_test = None,
      landed_return = None, ExecSync_failed_res = None\<rparr>
     \<lparr>Workspace = \<lparr>ws_Image = ''ubuntu:22.04'', ws_BuildConfig = Some ()\<rparr>,
      BuilderImage = ''builder:latest'', SshClient = None\<rparr>
     \<lparr>passwd = [''daytona:x:1000:1000::/home/daytona:/bin/zsh'',
                ''ubuntu:x:1001:1001:Ubuntu:/home/ubuntu:/bin/bash''],
      group = [''daytona:x:1000:'', ''ubuntu:x:1001:''], echoed = [], chowned = []\<rparr>
     = (Inr ''daytona'',
        \<lparr>passwd = [''daytona:x:1000:1000::/home/daytona:/bin/zsh'',
                   ''ubuntu:x:1001:1001:Ubuntu:/home/ubuntu:/bin/bash''],
         group = [''daytona:x:1000:'', ''ubuntu:x:1001:''],
         echoed = [''User with UID exists (ubuntu=1001).''], chowned = []\<rparr>)"
  by code_simp

text \<open>
  Claim C7, as amended. Two cases in which the user database stays as it is.
  \<^item> When the target's UID and GID are both \<^verbatim>\<open>0\<close>, \<^verbatim>\<open>updateContainerUserUidGid\<close> runs no
    script, returns \<^verbatim>\<open>root\<close> and leaves the container as it was. The clone command then
    runs as \<^verbatim>\<open>root\<close> when the host is not Windows; on Windows the function is not called
    and the clone command runs as \<^verbatim>\<open>daytona\<close>, whatever the target.
  \<^item> When the user database is regular (as for claim C1, with the target's UID for the
    new UID), \<^verbatim>\<open>/etc/passwd\<close> has one entry for \<^verbatim>\<open>daytona\<close>, and the UID and GID of that
    entry are the target's, the function changes neither \<^verbatim>\<open>/etc/passwd\<close> nor
    \<^verbatim>\<open>/etc/group\<close> nor any ownership, whether it runs the script or not.
\<close>

theorem updateContainerUserUidGid_no_change:
  "(target_ids d opts = Inr (''0'', ''0'') \<longrightarrow>
      updateContainerUserUidGid d opts c = (Inr ''root'', c)
    \<and> clone_user d opts c = (if GOOS d \<noteq> ''windows'' then ''root'' else ''daytona'', c))
   \<and> (target_ids d opts = Inr (NEW_UID, NEW_GID) \<and> regular ''daytona'' NEW_UID c
        \<and> entries ''daytona'' (passwd c) = [entry]
        \<and> nth_field 2 entry = NEW_UID \<and> nth_field 3 entry = NEW_GID \<longrightarrow>
      passwd (snd (updateContainerUserUidGid d opts c)) = passwd c
    \<and> group (snd (updateContainerUserUidGid d opts c)) = group c
    \<and> chowned (snd (updateContainerUserUidGid d opts c)) = chowned c)"
proof (intro conjI impI)
  assume root: "target_ids d opts = Inr (''0'', ''0'')"
  then show run: "updateContainerUserUidGid d opts c = (Inr ''root'', c)"
    by (simp add: updateContainerUserUidGid_def)
  then show "clone_user d opts c = (if GOOS d \<noteq> ''windows'' then ''root'' else ''daytona'', c)"
    by (simp add: clone_user_def)
next
  assume a: "target_ids d opts = Inr (NEW_UID, NEW_GID) \<and> regular ''daytona'' NEW_UID c
        \<and> entries ''daytona'' (passwd c) = [entry]
        \<and> nth_field 2 entry = NEW_UID \<and> nth_field 3 entry = NEW_GID"
  then have reg: "regular ''daytona'' NEW_UID c" and one: "entries ''daytona'' (passwd c) = [entry]"
    and same: "nth_field 2 entry = NEW_UID" "nth_field 3 entry = NEW_GID"
    by simp_all
  note script = script_same [OF reg one same]
  from a have "snd (updateContainerUserUidGid d opts c) = c
       \<or> snd (updateContainerUserUidGid d opts c) = UPDATE_UID_GID_SCRIPT ''daytona'' NEW_UID NEW_GID c"
    by (intro updateContainerUserUidGid_cases) simp
  with script
  show "passwd (snd (updateContainerUserUidGid d opts c)) = passwd c"
    and "group (snd (updateContainerUserUidGid d opts c)) = group c"
    and "chowned (snd (updateContainerUserUidGid d opts c)) = chowned c"
    by auto
qed

theorem updateContainerUserUidGid_no_change_witness:
  "clone_user
     \<lparr>GOOS = ''linux'', user_Current = Inr (''0'', ''0''), MkdirAll = None,
      PullImage_result = (\<lambda>img. None), ContainerCreate = Inr ''c1'',
      image_passwd = (\<lambda>img. []), image_group = (\<lambda>img. []), ContainerStart = None,
      ExecSync_script = None, ExecSync_clone = (\<lambda>u. Inr 0),
      DetectWorkspaceBuilderType = Inr BuilderTypeImage,
      CreateFromDevcontainer = (\<lambda>w. (None, w)), initWorkspaceContainer = (\<lambda>m. None),
      GetContainerLogs = (\<lambda>n. None), overwritten = (\<lambda>n. None), landed_test = None,
      landed_return = None, ExecSync_failed_res = None\<rparr>
     \<lparr>Workspace = \<lparr>ws_Image = ''ubuntu:22.04'', ws_BuildConfig = Some ()\<rparr>,
      BuilderImage = ''builder:latest'', SshClient = None\<rparr>
     \<lparr>passwd = [''root:x:0:0:root:/root:/bin/bash'',
                ''daytona:x:1000:1000:Daytona User:/home/daytona:/bin/zsh''],
      group = [''root:x:0:'', ''daytona:x:1000:''], echoed = [], chowned = []\<rparr>
   = (''root'',
      \<lparr>passwd = [''root:x:0:0:root:/root:/bin/bash'',
                 ''daytona:x:1000:1000:Daytona User:/home/daytona:/bin/zsh''],
       group = [''root:x:0:'', ''daytona:x:1000:''], echoed = [], chowned = []\<rparr>)
   \<and> passwd (snd (updateContainerUserUidGid
     \<lparr>GOOS = ''linux'', user_Current = Inr (''1000'', ''1000''), MkdirAll = None,
      PullImage_result = (\<lambda>img. None), ContainerCreate = Inr ''c1'',
      image_passwd = (\<lambda>img. []), image_group = (\<lambda>img. []), ContainerStart = None,
      ExecSync_script = None, ExecSync_clone = (\<lambda>u. Inr 0),
      DetectWorkspaceBuilderType = Inr BuilderTypeImage,
      CreateFromDevcontainer = (\<lambda>w. (None, w)), initWorkspaceContainer = (\<lambda>m. None),
      GetContainerLogs = (\<lambda>n. None), overwritten = (\<lambda>n. None), landed_test = None,
      landed_return = None, ExecSync_failed_res = None\<rparr>
     \<lparr>Workspace = \<lparr>ws_Image = ''ubuntu:22.04'', ws_BuildConfig = Some ()\<rparr>,
      BuilderImage = ''builder:latest'', SshClient = None\<rparr>
     \<lparr>passwd = [''root:x:0:0:root:/root:/bin/bash'',
                ''daytona:x:1000:1000:Daytona User:/home/daytona:/bin/zsh''],
      group = [''root:x:0:'', ''daytona:x:1000:''], echoed = [], chowned = []\<rparr>))
   = [''root:x:0:0:root:/root:/bin/bash'',
      ''daytona:x:1000:1000:Daytona User:/home/daytona:/bin/zsh'']"
proof -
  let ?root = "\<lparr>GOOS = ''linux'', user_Current = Inr (''0'', ''0''), MkdirAll = None,
      PullImage_result = (\<lambda>img. None), ContainerCreate = Inr ''c1'',
      image_passwd = (\<lambda>img. []), image_group = (\<lambda>img. []), ContainerStart = None,
      ExecSync_script = None, ExecSync_clone = (\<lambda>u. Inr 0),
      DetectWorkspaceBuilderType = Inr BuilderTypeImage,
      CreateFromDevcontainer = (\<lambda>w. (None, w)), initWorkspaceContainer = (\<lambda>m. None),
      GetContainerLogs = (\<lambda>n. None), overwritten = (\<lambda>n. None), landed_test = None,
      landed_return = None, ExecSync_failed_res = None\<rparr>"
  let ?d = "\<lparr>GOOS = ''linux'', user_Current = Inr (''1000'', ''1000''), MkdirAll = None,
      PullImage_result = (\<lambda>img. None), ContainerCreate = Inr ''c1'',
      image_passwd = (\<lambda>img. []), image_group = (\<lambda>img. []), ContainerStart = None,
      ExecSync_script = None, ExecSync_clone = (\<lambda>u. Inr 0),
      DetectWorkspaceBuilderType = Inr BuilderTypeImage,
      CreateFromDevcontainer = (\<lambda>w. (None, w)), initWorkspaceContainer = (\<lambda>m. None),
      GetContainerLogs = (\<lambda>n. None), overwritten = (\<lambda>n. None), landed_test = None,
      landed_return = None, ExecSync_failed_res = None\<rparr>"
  let ?opts = "\<lparr>Workspace = \<lparr>ws_Image = ''ubuntu:22.04'', ws_BuildConfig = Some ()\<rparr>,
      BuilderImage = ''builder:latest'', SshClient = None\<rparr>"
  let ?c = "\<lparr>passwd = [''root:x:0:0:root:/root:/bin/bash'',
                ''daytona:x:1000:1000:Daytona User:/home/daytona:/bin/zsh''],
      group = [''root:x:0:'', ''daytona:x:1000:''], echoed = [], chowned = []\<rparr>"
  let ?entry = "''daytona:x:1000:1000:Daytona User:/home/daytona:/bin/zsh''"
  have root: "target_ids ?root ?opts = Inr (''0'', ''0'')" by (simp add: target_ids_def)
  have target: "target_ids ?d ?opts = Inr (''1000'', ''1000'')" by (simp add: target_ids_def)
  have reg: "regular ''daytona'' ''1000'' ?c" by code_simp
  have one: "entries ''daytona'' (passwd ?c) = [?entry]" by code_simp
  have same: "nth_field 2 ?entry = ''1000'' \<and> nth_field 3 ?entry = ''1000''" by code_simp
  from updateContainerUserUidGid_no_change [where d = ?root and opts = ?opts and c = ?c] root
  have "clone_user ?root ?opts ?c = (''root'', ?c)" by simp
  moreover
  from updateContainerUserUidGid_no_change
    [where d = ?d and opts = ?opts and c = ?c and NEW_UID = "''1000''" and NEW_GID = "''1000''"
       and entry = ?entry]
    target reg one same
  have "passwd (snd (updateContainerUserUidGid ?d ?opts ?c)) = passwd ?c" by blast
  ultimately show ?thesis by simp
qed

text \<open>
  The claim as it was stated promised the second case whenever the target's ids are
  those of the container's user. With a second user whose name ends in \<^verbatim>\<open>daytona\<close>, the
  first pattern of the script matches the line of that user as well, behind the two
  letters in front: the GID and the home folder of that line are what \<^verbatim>\<open>eval\<close> assigns
  last. With the target 1000:1000 of \<^verbatim>\<open>daytona\<close> the script then finds a GID to change,
  writes into the lines of both users and hands the home folder of the other user to
  \<^verbatim>\<open>daytona\<close>. And with the target 0:0 of a remote shell and a Windows host, the clone
  command runs as \<^verbatim>\<open>daytona\<close>.
\<close>

theorem updateContainerUserUidGid_no_change_counterexample:
  "updateContainerUserUidGid
     \<lparr>GOOS = ''linux'', user_Current = Inr (''1000'', ''1000''), MkdirAll = None,
      PullImage_result = (\<lambda>img. None), ContainerCreate = Inr ''c1'',
      image_passwd = (\<lambda>img. []), image_group = (\<lambda>img. []), ContainerStart = None,
      ExecSync_script = None, ExecSync_clone = (\<lambda>u. Inr 0),
      DetectWorkspaceBuilderType = Inr BuilderTypeImage,
      CreateFromDevcontainer = (\<lambda>w. (None, w)), initWorkspaceContainer = (\<lambda>m. None),
      GetContainerLogs = (\<lambda>n. None), overwritten = (\<lambda>n. None), landed_test = None,
      landed_return = None, ExecSync_failed_res = None\<rparr>
     \<lparr>Workspace = \<lparr>ws_Image = ''ubuntu:22.04'', ws_BuildConfig = Some ()\<rparr>,
      BuilderImage = ''builder:latest'', SshClient = None\<rparr>
     \<lparr>passwd = [''daytona:x:1000:1000::/home/daytona:/bin/zsh'',
                ''my-daytona:x:2000:2000::/home/my:/bin/sh''],
      group = [''daytona:x:1000:'', ''my-daytona:x:2000:''], echoed = [], chowned = []\<rparr>
     = (Inr ''daytona'',
        \<lparr>passwd = [''daytona:x:1000:2000::/home/daytona:/bin/zsh'',
                   ''my-daytona:x:1000:2000::/home/my:/bin/sh''],
         group = [''daytona:x:1000:'', ''my-daytona:x:2000:''],
         echoed = [''Group with GID exists (daytona=1000).'',
                   ''Updating UID:GID from 1000:2000 to 1000:2000.''],
         chowned = [[''1000:2000'', ''/home/my'']]\<rparr>)
   \<and> clone_user
     \<lparr>GOOS = ''windows'', user_Current = Inr (''S-1-5-21-1004'', ''S-1-5-21-513''),
      MkdirAll = None,
      PullImage_result = (\<lambda>img. None), ContainerCreate = Inr ''c1'',
      image_passwd = (\<lambda>img. []), image_group = (\<lambda>img. []), ContainerStart = None,
      ExecSync_script = None, ExecSync_clone = (\<lambda>u. Inr 0),
      DetectWorkspaceBuilderType = Inr BuilderTypeImage,
      CreateFromDevcontainer = (\<lambda>w. (None, w)), initWorkspaceContainer = (\<lambda>m. None),
      GetContainerLogs = (\<lambda>n. None), overwritten = (\<lambda>n. None), landed_test = None,
      landed_return = None, ExecSync_failed_res = None\<rparr>
     \<lparr>Workspace = \<lparr>ws_Image = ''ubuntu:22.04'', ws_BuildConfig = Some ()\<rparr>,
      BuilderImage = ''builder:latest'',
      SshClient = Some \<lparr>GetUserUidGid = Inr (''0'', ''0''), Exec_mkdir = None\<rparr>\<rparr>
     \<lparr>passwd = [''root:x:0:0:root:/root:/bin/bash'',
                ''daytona:x:1000:1000::/home/daytona:/bin/zsh''],
      group = [''root:x:0:'', ''daytona:x:1000:''], echoed = [], chowned = []\<rparr>
     = (''daytona'',
        \<lparr>passwd = [''root:x:0:0:root:/root:/bin/bash'',
                   ''daytona:x:1000:1000::/home/daytona:/bin/zsh''],
         group = [''root:x:0:'', ''daytona:x:1000:''], echoed = [], chowned = []\<rparr>)"
  by code_simp

subsection \<open>The log goroutine and the result of the clone\<close>

lemma stream_logs_ends:
  "tests (n + k) = None \<Longrightarrow> (\<And>m. m < k \<Longrightarrow> tests (n + m) \<noteq> None)
     \<Longrightarrow> stream_logs tests n = Some (n + k)"
proof (induction k arbitrary: n)
  case 0
  then show ?case by (subst stream_logs.simps) simp
next
  case (Suc k)
  from Suc.prems(2) [of 0] obtain err where err: "tests n = Some err" by auto
  have "stream_logs tests (Suc n) = Some (Suc n + k)"
  proof (rule Suc.IH)
    from Suc.prems(1) show "tests (Suc n + k) = None" by simp
    show "tests (Suc n + m) \<noteq> None" if "m < k" for m
      using Suc.prems(2) [of "Suc m"] that by simp
  qed
  with err show ?case by (subst stream_logs.simps) simp
qed

lemma stream_logs_Some:
  assumes "stream_logs tests n = Some k"
  shows "n \<le> k \<and> tests k = None \<and> (\<forall>m. n \<le> m \<and> m < k \<longrightarrow> tests m \<noteq> None)"
proof (rule stream_logs.raw_induct
    [where P = "\<lambda>tests n k. n \<le> k \<and> tests k = None
                  \<and> (\<forall>m. n \<le> m \<and> m < k \<longrightarrow> tests m \<noteq> None)", OF _ assms])
  fix f :: "(nat \<Rightarrow> error option) \<Rightarrow> nat \<Rightarrow> nat option" and tests n k
  assume IH: "\<And>tests n k. f tests n = Some k
      \<Longrightarrow> n \<le> k \<and> tests k = None \<and> (\<forall>m. n \<le> m \<and> m < k \<longrightarrow> tests m \<noteq> None)"
    and turn: "(case tests n of None \<Rightarrow> Some n | Some err \<Rightarrow> f tests (Suc n)) = Some k"
  show "n \<le> k \<and> tests k = None \<and> (\<forall>m. n \<le> m \<and> m < k \<longrightarrow> tests m \<noteq> None)"
  proof (cases "tests n")
    case None
    with turn show ?thesis by auto
  next
    case (Some err)
    with turn have "f tests (Suc n) = Some k" by simp
    from IH [OF this]
    have later: "Suc n \<le> k \<and> tests k = None
        \<and> (\<forall>m. Suc n \<le> m \<and> m < k \<longrightarrow> tests m \<noteq> None)" .
    have "tests m \<noteq> None" if "n \<le> m" "m < k" for m
    proof (cases "m = n")
      case True
      with Some show ?thesis by simp
    next
      case False
      with that later show ?thesis by simp
    qed
    with later show ?thesis by simp
  qed
qed

lemma stream_logs_never: "(\<And>m. tests m \<noteq> None) \<Longrightarrow> stream_logs tests n = None"
proof (rule ccontr)
  assume never: "\<And>m. tests m \<noteq> None" and "stream_logs tests n \<noteq> None"
  then obtain k where "stream_logs tests n = Some k" by auto
  then have "tests k = None" using stream_logs_Some by blast
  with never [of k] show False by simp
qed

lemma updateContainerUserUidGid_logs:
  "updateContainerUserUidGid (d\<lparr>GetContainerLogs := answers\<rparr>) opts c
     = updateContainerUserUidGid d opts c"
  by (simp add: updateContainerUserUidGid_def target_ids_def Let_def
      split: sum.splits prod.splits)

lemma clone_user_logs: "clone_user (d\<lparr>GetContainerLogs := answers\<rparr>) opts c = clone_user d opts c"
  by (simp add: clone_user_def updateContainerUserUidGid_logs)

lemma clone_in_container_logs:
  assumes "landed_test d = None" "landed_return d = None"
  shows "clone_in_container (d\<lparr>GetContainerLogs := answers\<rparr>) opts w
       = clone_in_container d opts w"
  using assms
  by (simp add: clone_in_container_def clone_user_logs err_test_def err_return_def Let_def
      split: option.splits sum.splits prod.splits)

lemma cloneWorkspaceRepository_logs:
  assumes "landed_test d = None" "landed_return d = None"
  shows "cloneWorkspaceRepository (d\<lparr>GetContainerLogs := answers\<rparr>) opts w
       = cloneWorkspaceRepository d opts w"
  by (simp add: cloneWorkspaceRepository_def clone_in_container_logs [OF assms]
      mkdir_workspace_def cong: option.case_cong sum.case_cong)

lemma cloneWorkspaceRepository_exit_0:
  assumes "landed_test d = None" "landed_return d = None"
    and "mkdir_workspace d opts = None" "ContainerCreate d = Inr ID" "ContainerStart d = None"
    and "ExecSync_clone d (fst (clone_user d opts
           \<lparr>passwd = image_passwd d (BuilderImage opts),
            group = image_group d (BuilderImage opts), echoed = [], chowned = []\<rparr>)) = Inr 0"
  shows "fst (cloneWorkspaceRepository d opts w) = None"
  using assms
  by (simp add: cloneWorkspaceRepository_def clone_in_container_def Let_def case_prod_beta
      err_test_def err_return_def)

text \<open>
  Claim C3, as amended. The goroutine calls \<^verbatim>\<open>GetContainerLogs\<close> again after every
  error, with a pause of 100 ms, until a call returns nil, and for ever when no call
  does; whether the process in the container has ended is not what stops it. Let no
  assignment of one thread to the shared variable \<^verbatim>\<open>err\<close> fall between an assignment and
  a read of the other. Then:
  \<^item> the loop ends in turn \<open>k\<close> exactly when call \<open>k\<close> is the first that returns nil, and
    never ends when every call returns an error;
  \<^item> what \<^verbatim>\<open>cloneWorkspaceRepository\<close> returns and leaves behind does not depend on the
    answers of \<^verbatim>\<open>GetContainerLogs\<close>, whether the retries converge or not;
  \<^item> when the directory is made, the container created and started and the clone
    command leaves with exit code 0, \<^verbatim>\<open>cloneWorkspaceRepository\<close> returns nil, also when
    the retries never converge.
  The function neither waits for the goroutine nor makes an error of what it did.
\<close>

theorem cloneWorkspaceRepository_log_retries:
  assumes own: "overwritten d = (\<lambda>n. None)" "landed_test d = None" "landed_return d = None"
  shows "(stream_logs (goroutine_tests d) 0 = Some k
            \<longleftrightarrow> GetContainerLogs d k = None \<and> (\<forall>m<k. GetContainerLogs d m \<noteq> None))
       \<and> ((\<forall>n. GetContainerLogs d n \<noteq> None) \<longrightarrow> stream_logs (goroutine_tests d) 0 = None)
       \<and> cloneWorkspaceRepository (d\<lparr>GetContainerLogs := answers\<rparr>) opts w
            = cloneWorkspaceRepository d opts w
       \<and> (mkdir_workspace d opts = None \<and> ContainerCreate d = Inr ID \<and> ContainerStart d = None
            \<and> ExecSync_clone d (fst (clone_user d opts
                 \<lparr>passwd = image_passwd d (BuilderImage opts),
                  group = image_group d (BuilderImage opts), echoed = [], chowned = []\<rparr>)) = Inr 0
          \<longrightarrow> fst (cloneWorkspaceRepository d opts w) = None)"
proof -
  from own(1) have tests: "goroutine_tests d = GetContainerLogs d"
    by (simp add: goroutine_tests_def fun_eq_iff)
  have "stream_logs (GetContainerLogs d) 0 = Some k"
    if "GetContainerLogs d k = None \<and> (\<forall>m<k. GetContainerLogs d m \<noteq> None)"
    using stream_logs_ends [of "GetContainerLogs d" 0 k] that by simp
  moreover have "GetContainerLogs d k = None \<and> (\<forall>m<k. GetContainerLogs d m \<noteq> None)"
    if "stream_logs (GetContainerLogs d) 0 = Some k"
    using stream_logs_Some [OF that] by simp
  ultimately have ends: "stream_logs (goroutine_tests d) 0 = Some k
            \<longleftrightarrow> GetContainerLogs d k = None \<and> (\<forall>m<k. GetContainerLogs d m \<noteq> None)"
    unfolding tests by blast
  have never: "stream_logs (goroutine_tests d) 0 = None" if "\<forall>n. GetContainerLogs d n \<noteq> None"
    unfolding tests using that by (intro stream_logs_never) simp
  note same = cloneWorkspaceRepository_logs [OF own(2,3), of answers opts w]
  have exit0: "fst (cloneWorkspaceRepository d opts w) = None"
    if "mkdir_workspace d opts = None \<and> ContainerCreate d = Inr ID \<and> ContainerStart d = None
            \<and> ExecSync_clone d (fst (clone_user d opts
                 \<lparr>passwd = image_passwd d (BuilderImage opts),
                  group = image_group d (BuilderImage opts), echoed = [], chowned = []\<rparr>)) = Inr 0"
    using that by (intro cloneWorkspaceRepository_exit_0 [OF own(2,3)]) simp_all
  from ends never same exit0 show ?thesis by blast
qed

theorem cloneWorkspaceRepository_log_retries_witness:
  "stream_logs (goroutine_tests
     \<lparr>GOOS = ''linux'', user_Current = Inr (''0'', ''0''), MkdirAll = None,
      PullImage_result = (\<lambda>img. None), ContainerCreate = Inr ''c1'',
      image_passwd = (\<lambda>img. []), image_group = (\<lambda>img. []), ContainerStart = None,
      ExecSync_script = None, ExecSync_clone = (\<lambda>u. Inr 0),
      DetectWorkspaceBuilderType = Inr BuilderTypeImage,
      CreateFromDevcontainer = (\<lambda>w. (None, w)), initWorkspaceContainer = (\<lambda>m. None),
      GetContainerLogs = (\<lambda>n. if n < 2 then Some (Failure ''EOF'') else None),
      overwritten = (\<lambda>n. None), landed_test = None, landed_return = None,
      ExecSync_failed_res = None\<rparr>) 0 = Some 2
   \<and> fst (cloneWorkspaceRepository
     \<lparr>GOOS = ''linux'', user_Current = Inr (''0'', ''0''), MkdirAll = None,
      PullImage_result = (\<lambda>img. None), ContainerCreate = Inr ''c1'',
      image_passwd = (\<lambda>img. []), image_group = (\<lambda>img. []), ContainerStart = None,
      ExecSync_script = None, ExecSync_clone = (\<lambda>u. Inr 0),
      DetectWorkspaceBuilderType = Inr BuilderTypeImage,
      CreateFromDevcontainer = (\<lambda>w. (None, w)), initWorkspaceContainer = (\<lambda>m. None),
      GetContainerLogs = (\<lambda>n. if n < 2 then Some (Failure ''EOF'') else None),
      overwritten = (\<lambda>n. None), landed_test = None, landed_return = None,
      ExecSync_failed_res = None\<rparr>
     \<lparr>Workspace = \<lparr>ws_Image = ''ubuntu:22.04'', ws_BuildConfig = Some ()\<rparr>,
      BuilderImage = ''builder:latest'', SshClient = None\<rparr>
     \<lparr>pulled = [], logged = [], clone_users = [], removed = []\<rparr>) = None"
proof -
  let ?d = "\<lparr>GOOS = ''linux'', user_Current = Inr (''0'', ''0''), MkdirAll = None,
      PullImage_result = (\<lambda>img. None), ContainerCreate = Inr ''c1'',
      image_passwd = (\<lambda>img. []), image_group = (\<lambda>img. []), ContainerStart = None,
      ExecSync_script = None, ExecSync_clone = (\<lambda>u. Inr 0),
      DetectWorkspaceBuilderType = Inr BuilderTypeImage,
      CreateFromDevcontainer = (\<lambda>w. (None, w)), initWorkspaceContainer = (\<lambda>m. None),
      GetContainerLogs = (\<lambda>n. if n < 2 then Some (Failure ''EOF'') else None),
      overwritten = (\<lambda>n. None), landed_test = None, landed_return = None,
      ExecSync_failed_res = None\<rparr>"
  let ?opts = "\<lparr>Workspace = \<lparr>ws_Image = ''ubuntu:22.04'', ws_BuildConfig = Some ()\<rparr>,
      BuilderImage = ''builder:latest'', SshClient = None\<rparr>"
  let ?w = "\<lparr>pulled = [], logged = [], clone_users = [], removed = []\<rparr>"
  have own: "overwritten ?d = (\<lambda>n. None)" "landed_test ?d = None" "landed_return ?d = None"
    by simp_all
  have first: "GetContainerLogs ?d 2 = None \<and> (\<forall>m<2. GetContainerLogs ?d m \<noteq> None)" by simp
  have ran: "mkdir_workspace ?d ?opts = None \<and> ContainerCreate ?d = Inr ''c1''
      \<and> ContainerStart ?d = None
      \<and> ExecSync_clone ?d (fst (clone_user ?d ?opts
           \<lparr>passwd = image_passwd ?d (BuilderImage ?opts),
            group = image_group ?d (BuilderImage ?opts), echoed = [], chowned = []\<rparr>)) = Inr 0"
    by (simp add: mkdir_workspace_def)
  from cloneWorkspaceRepository_log_retries
    [OF own, where k = 2 and opts = ?opts and ID = "''c1''" and w = ?w] first ran
  show ?thesis by blast
qed

text \<open>
  The claim as it was stated has the clone fail with a provisioning error when the
  retries never converge. In this run every call of \<^verbatim>\<open>GetContainerLogs\<close> returns an
  error, so that the goroutine never ends, and the clone command leaves with exit code
  0: \<^verbatim>\<open>cloneWorkspaceRepository\<close> returns nil, removes the container and leaves the
  goroutine behind.
\<close>

theorem cloneWorkspaceRepository_log_retries_counterexample:
  "stream_logs (goroutine_tests
     \<lparr>GOOS = ''linux'', user_Current = Inr (''0'', ''0''), MkdirAll = None,
      PullImage_result = (\<lambda>img. None), ContainerCreate = Inr ''c1'',
      image_passwd = (\<lambda>img. []), image_group = (\<lambda>img. []), ContainerStart = None,
      ExecSync_script = None, ExecSync_clone = (\<lambda>u. Inr 0),
      DetectWorkspaceBuilderType = Inr BuilderTypeImage,
      CreateFromDevcontainer = (\<lambda>w. (None, w)), initWorkspaceContainer = (\<lambda>m. None),
      GetContainerLogs = (\<lambda>n. Some (Failure ''No such container: c1'')),
      overwritten = (\<lambda>n. None), landed_test = None, landed_return = None,
      ExecSync_failed_res = None\<rparr>) 0 = None
   \<and> cloneWorkspaceRepository
     \<lparr>GOOS = ''linux'', user_Current = Inr (''0'', ''0''), MkdirAll = None,
      PullImage_result = (\<lambda>img. None), ContainerCreate = Inr ''c1'',
      image_passwd = (\<lambda>img. []), image_group = (\<lambda>img. []), ContainerStart = None,
      ExecSync_script = None, ExecSync_clone = (\<lambda>u. Inr 0),
      DetectWorkspaceBuilderType = Inr BuilderTypeImage,
      CreateFromDevcontainer = (\<lambda>w. (None, w)), initWorkspaceContainer = (\<lambda>m. None),
      GetContainerLogs = (\<lambda>n. Some (Failure ''No such container: c1'')),
      overwritten = (\<lambda>n. None), landed_test = None, landed_return = None,
      ExecSync_failed_res = None\<rparr>
     \<lparr>Workspace = \<lparr>ws_Image = ''ubuntu:22.04'', ws_BuildConfig = Some ()\<rparr>,
      BuilderImage = ''builder:latest'', SshClient = None\<rparr>
     \<lparr>pulled = [], logged = [], clone_users = [], removed = []\<rparr>
   = (None, \<lparr>pulled = [], logged = [], clone_users = [''root''], removed = [''c1'']\<rparr>)"
proof (rule conjI)
  show "stream_logs (goroutine_tests
     \<lparr>GOOS = ''linux'', user_Current = Inr (''0'', ''0''), MkdirAll = None,
      PullImage_result = (\<lambda>img. None), ContainerCreate = Inr ''c1'',
      image_passwd = (\<lambda>img. []), image_group = (\<lambda>img. []), ContainerStart = None,
      ExecSync_script = None, ExecSync_clone = (\<lambda>u. Inr 0),
      DetectWorkspaceBuilderType = Inr BuilderTypeImage,
      CreateFromDevcontainer = (\<lambda>w. (None, w)), initWorkspaceContainer = (\<lambda>m. None),
      GetContainerLogs = (\<lambda>n. Some (Failure ''No such container: c1'')),
      overwritten = (\<lambda>n. None), landed_test = None, landed_return = None,
      ExecSync_failed_res = None\<rparr>) 0 = None"
    by (rule stream_logs_never) (simp add: goroutine_tests_def)
next
  show "cloneWorkspaceRepository
     \<lparr>GOOS = ''linux'', user_Current = Inr (''0'', ''0''), MkdirAll = None,
      PullImage_result = (\<lambda>img. None), ContainerCreate = Inr ''c1'',
      image_passwd = (\<lambda>img. []), image_group = (\<lambda>img. []), ContainerStart = None,
      ExecSync_script = None, ExecSync_clone = (\<lambda>u. Inr 0),
      DetectWorkspaceBuilderType = Inr BuilderTypeImage,
      CreateFromDevcontainer = (\<lambda>w. (None, w)), initWorkspaceContainer = (\<lambda>m. None),
      GetContainerLogs = (\<lambda>n. Some (Failure ''No such container: c1'')),
      overwritten = (\<lambda>n. None), landed_test = None, landed_return = None,
      ExecSync_failed_res = None\<rparr>
     \<lparr>Workspace = \<lparr>ws_Image = ''ubuntu:22.04'', ws_BuildConfig = Some ()\<rparr>,
      BuilderImage = ''builder:latest'', SshClient = None\<rparr>
     \<lparr>pulled = [], logged = [], clone_users = [], removed = []\<rparr>
   = (None, \<lparr>pulled = [], logged = [], clone_users = [''root''], removed = [''c1'']\<rparr>)"
    by code_simp
qed

section \<open>Provisioning a workspace (pkg/docker, lines 38-73)\<close>

text \<open>
  \<^verbatim>\<open>d.PullImage\<close> is defined in another file of the package: its result is a field of
  \<open>docker\<close>, and
  each call is written to \<open>pulled\<close>, the list of pull operations the daemon was asked
  for, oldest first.
\<close>

definition PullImage :: "docker \<Rightarrow> string \<Rightarrow> world \<Rightarrow> error option \<times> world" where
  "PullImage d img w = (PullImage_result d img, w\<lparr>pulled := pulled w @ [img]\<rparr>)"

text \<open>
  Modelled from the spec: \<^verbatim>\<open>createWorkspaceFromImage\<close>, which \<^verbatim>\<open>CreateWorkspace\<close> hands the
  map \<^verbatim>\<open>pulledImages\<close> to, is defined in another file of the package, which is not
  among the sources verified here. The spec says of it: the
  workspace is provisioned from its image, "skipping re-pull if the exact image tag was
  already pulled in this operation -- a dedup cache keyed by image reference". What
  follows the pull (the workspace container itself) is an answer of \<open>docker\<close>.
\<close>

definition createWorkspaceFromImage ::
  "docker \<Rightarrow> 'b CreateWorkspaceOptions \<Rightarrow> (string \<Rightarrow> bool) \<Rightarrow> bool \<Rightarrow> world
     \<Rightarrow> error option \<times> world" where
  "createWorkspaceFromImage d opts pulledImages mountWorkspaceDir w =
     (if pulledImages (ws_Image (Workspace opts)) then (initWorkspaceContainer d mountWorkspaceDir, w)
      else (case PullImage d (ws_Image (Workspace opts)) w of
              (Some err, w') \<Rightarrow> (Some err, w')
            | (None, w') \<Rightarrow> (initWorkspaceContainer d mountWorkspaceDir, w')))"

text \<open>
  \<^verbatim>\<open>
  func (d *DockerClient) CreateWorkspace(opts *CreateWorkspaceOptions) error {
      pulledImages := map[string]bool{}
      if opts.Workspace.BuildConfig != nil {
          cr := opts.ContainerRegistries.FindContainerRegistryByImageName(opts.BuilderImage)
          err := d.PullImage(opts.BuilderImage, cr, opts.LogWriter)
          if err != nil { return err }
          pulledImages[opts.BuilderImage] = true
          err = d.cloneWorkspaceRepository(opts)
          if err != nil { return err }
          builderType, err := detect.DetectWorkspaceBuilderType(opts.Workspace.BuildConfig, opts.WorkspaceDir, opts.SshClient)
          if err != nil { return err }
          switch builderType {
          case detect.BuilderTypeDevcontainer:
              _, _, err := d.CreateFromDevcontainer(d.toCreateDevcontainerOptions(opts, true))
              return err
          case detect.BuilderTypeImage:
              return d.createWorkspaceFromImage(opts, pulledImages, true)
          default:
              return fmt.Errorf("unknown builder type: %s", builderType)
          }
      }
      return d.createWorkspaceFromImage(opts, pulledImages, false)
  }
  \<close>
  The two cases of the \<^verbatim>\<open>switch\<close> are distinct constants (Go rejects a duplicate
  case), so a builder type is one of the two or some other value, which carries the
  text that \<^verbatim>\<open>%s\<close> prints. The map \<^verbatim>\<open>pulledImages\<close> is a local variable, made empty by
  every call.
\<close>

definition dispatch ::
  "docker \<Rightarrow> 'b CreateWorkspaceOptions \<Rightarrow> (string \<Rightarrow> bool) \<Rightarrow> BuilderType \<Rightarrow> world
     \<Rightarrow> error option \<times> world" where
  "dispatch d opts pulledImages builderType w =
     (case builderType of
        BuilderTypeDevcontainer \<Rightarrow> CreateFromDevcontainer d w
      | BuilderTypeImage \<Rightarrow> createWorkspaceFromImage d opts pulledImages True w
      | BuilderTypeOther s \<Rightarrow> (Some (Failure (''unknown builder type: '' @ s)), w))"

definition CreateWorkspace ::
  "docker \<Rightarrow> 'b CreateWorkspaceOptions \<Rightarrow> world \<Rightarrow> error option \<times> world" where
  "CreateWorkspace d opts w =
     (let pulledImages = (\<lambda>img. False) in
      case ws_BuildConfig (Workspace opts) of
        None \<Rightarrow> createWorkspaceFromImage d opts pulledImages False w
      | Some buildConfig \<Rightarrow>
          (case PullImage d (BuilderImage opts) w of
             (Some err, w1) \<Rightarrow> (Some err, w1)
           | (None, w1) \<Rightarrow>
               (let pulledImages = pulledImages(BuilderImage opts := True) in
                case cloneWorkspaceRepository d opts w1 of
                  (Some err, w2) \<Rightarrow> (Some err, w2)
                | (None, w2) \<Rightarrow>
                    (case DetectWorkspaceBuilderType d of
                       Inl err \<Rightarrow> (Some err, w2)
                     | Inr builderType \<Rightarrow> dispatch d opts pulledImages builderType w2))))"

subsection \<open>The clone step as CreateWorkspace sees it\<close>


lemma cloneWorkspaceRepository_result:
  "fst (cloneWorkspaceRepository d opts w) = fst (cloneWorkspaceRepository d opts v)"
  by (simp add: cloneWorkspaceRepository_def clone_in_container_def Let_def
      split: option.splits sum.splits prod.splits)

subsection \<open>Dispatch on the builder type\<close>

text \<open>
  Claim C5. Let the build configuration of the workspace be set, and let the pull of the
  builder image and the clone of the repository succeed. The builder type that
  detection then returns decides what \<open>CreateWorkspace\<close> does: for
  \<^verbatim>\<open>BuilderTypeDevcontainer\<close> it is the devcontainer path, for \<^verbatim>\<open>BuilderTypeImage\<close> the
  image path (with the builder image in \<^verbatim>\<open>pulledImages\<close>), and for any other value the
  call fails with the error \<^verbatim>\<open>unknown builder type\<close>.
\<close>

theorem CreateWorkspace_dispatch:
  assumes build: "ws_BuildConfig (Workspace opts) = Some buildConfig"
    and pull: "PullImage d (BuilderImage opts) w = (None, w1)"
    and clone: "cloneWorkspaceRepository d opts w1 = (None, w2)"
    and detect: "DetectWorkspaceBuilderType d = Inr builderType"
  shows "(builderType = BuilderTypeDevcontainer \<longrightarrow>
            CreateWorkspace d opts w = CreateFromDevcontainer d w2)
       \<and> (builderType = BuilderTypeImage \<longrightarrow>
            CreateWorkspace d opts w
              = createWorkspaceFromImage d opts ((\<lambda>img. False)(BuilderImage opts := True)) True w2)
       \<and> (\<forall>s. builderType = BuilderTypeOther s \<longrightarrow>
            CreateWorkspace d opts w = (Some (Failure (''unknown builder type: '' @ s)), w2))"
proof -
  from build pull clone detect
  have "CreateWorkspace d opts w
      = dispatch d opts ((\<lambda>img. False)(BuilderImage opts := True)) builderType w2"
    by (simp add: CreateWorkspace_def)
  then show ?thesis by (cases builderType) (simp_all add: dispatch_def)
qed

theorem CreateWorkspace_dispatch_witness:
  "CreateWorkspace
     \<lparr>GOOS = ''linux'', user_Current = Inr (''0'', ''0''), MkdirAll = None,
      PullImage_result = (\<lambda>img. None), ContainerCreate = Inr ''c1'',
      image_passwd = (\<lambda>img. []), image_group = (\<lambda>img. []), ContainerStart = None,
      ExecSync_script = None, ExecSync_clone = (\<lambda>u. Inr 0),
      DetectWorkspaceBuilderType = Inr (BuilderTypeOther ''dockerfile''),
      CreateFromDevcontainer = (\<lambda>w. (None, w)), initWorkspaceContainer = (\<lambda>m. None),
      GetContainerLogs = (\<lambda>n. None), overwritten = (\<lambda>n. None), landed_test = None,
      landed_return = None, ExecSync_failed_res = None\<rparr>
     \<lparr>Workspace = \<lparr>ws_Image = ''ubuntu:22.04'', ws_BuildConfig = Some ()\<rparr>,
      BuilderImage = ''builder:latest'', SshClient = None\<rparr>
     \<lparr>pulled = [], logged = [], clone_users = [], removed = []\<rparr>
   = (Some (Failure ''unknown builder type: dockerfile''),
      \<lparr>pulled = [''builder:latest''], logged = [], clone_users = [''root''],
       removed = [''c1'']\<rparr>)"
proof -
  let ?d = "\<lparr>GOOS = ''linux'', user_Current = Inr (''0'', ''0''), MkdirAll = None,
      PullImage_result = (\<lambda>img. None), ContainerCreate = Inr ''c1'',
      image_passwd = (\<lambda>img. []), image_group = (\<lambda>img. []), ContainerStart = None,
      ExecSync_script = None, ExecSync_clone = (\<lambda>u. Inr 0),
      DetectWorkspaceBuilderType = Inr (BuilderTypeOther ''dockerfile''),
      CreateFromDevcontainer = (\<lambda>w. (None, w)), initWorkspaceContainer = (\<lambda>m. None),
      GetContainerLogs = (\<lambda>n. None), overwritten = (\<lambda>n. None), landed_test = None,
      landed_return = None, ExecSync_failed_res = None\<rparr>"
  let ?opts = "\<lparr>Workspace = \<lparr>ws_Image = ''ubuntu:22.04'', ws_BuildConfig = Some ()\<rparr>,
      BuilderImage = ''builder:latest'', SshClient = None\<rparr>"
  let ?w = "\<lparr>pulled = [], logged = [], clone_users = [], removed = []\<rparr>"
  let ?w1 = "\<lparr>pulled = [''builder:latest''], logged = [], clone_users = [], removed = []\<rparr>"
  let ?w2 = "\<lparr>pulled = [''builder:latest''], logged = [], clone_users = [''root''],
      removed = [''c1'']\<rparr>"
  have build: "ws_BuildConfig (Workspace ?opts) = Some ()" by simp
  have pull: "PullImage ?d (BuilderImage ?opts) ?w = (None, ?w1)" by (simp add: PullImage_def)
  have clone: "cloneWorkspaceRepository ?d ?opts ?w1 = (None, ?w2)"
    by (simp add: cloneWorkspaceRepository_def clone_in_container_def clone_user_def
        updateContainerUserUidGid_def target_ids_def mkdir_workspace_def err_test_def
        err_return_def)
  have detect: "DetectWorkspaceBuilderType ?d = Inr (BuilderTypeOther ''dockerfile'')" by simp
  from CreateWorkspace_dispatch [OF build pull clone detect] show ?thesis by simp
qed

subsection \<open>Pulls of one run\<close>







section \<open>The workspace service (pkg/server/workspaces)\<close>

text \<open>
  Modelled from the spec: the workspace service itself (\<^verbatim>\<open>Find\<close>, \<^verbatim>\<open>Delete\<close>), its
  store and its job ledger are not among the sources verified here; only their test
  \<^verbatim>\<open>service_test.go\<close> is. The definitions follow sections 3, 4.1 and 7 of the spec:
  \<^item> a workspace row carries "a soft-delete flag"; "a workspace transitioning to deleted
    is excluded from Find/List but its row persists";
  \<^item> \<^verbatim>\<open>Find\<close> fails "NotFound / Deleted distinctly": \<^verbatim>\<open>NotFoundError\<close> is "no such
    entity", \<^verbatim>\<open>DeletedError\<close> is "entity exists but soft-deleted";
  \<^item> \<^verbatim>\<open>Delete\<close> is the "soft delete: revokes the API key, marks the entity deleted,
    enqueues a delete Job".
  The collaborators \<^verbatim>\<open>DeleteApiKey\<close> and \<^verbatim>\<open>CreateJob\<close> are injected functions (section 6);
  what they answer is a parameter. The API key of a workspace is issued under the
  workspace id, as the test sets it up. An operation returns its error, if any, and the
  state it leaves.
\<close>

datatype service_error = NotFoundError | DeletedError | AlreadyRevoked | OtherError string

datatype job_action = JobCreate | JobStart | JobStop | JobDelete

record workspace_row =
  row_name :: string
  row_api_key :: string
  row_deleted :: bool

record service =
  rows :: "string \<rightharpoonup> workspace_row"
  ledger :: "(string \<times> job_action) list"
  revoked :: "string list"

record collaborators =
  DeleteApiKey :: "string \<Rightarrow> service_error option"
  CreateJob :: "string \<Rightarrow> job_action \<Rightarrow> service_error option"

text \<open>
  Modelled from the spec: \<^verbatim>\<open>Find\<close> looks the row up; no row is \<^verbatim>\<open>NotFoundError\<close>, a
  row with the soft-delete flag is \<^verbatim>\<open>DeletedError\<close>.
\<close>

definition Find :: "service \<Rightarrow> string \<Rightarrow> service_error + workspace_row" where
  "Find st ident =
     (case rows st ident of
        None \<Rightarrow> Inl NotFoundError
      | Some w \<Rightarrow> if row_deleted w then Inl DeletedError else Inr w)"

text \<open>
  Modelled from the spec: \<^verbatim>\<open>Delete\<close> revokes the key, marks the row and enqueues the job,
  in this order; an error of a collaborator is returned where it occurs.
\<close>

definition Delete :: "collaborators \<Rightarrow> service \<Rightarrow> string \<Rightarrow> service_error option \<times> service" where
  "Delete k st ident =
     (case Find st ident of
        Inl err \<Rightarrow> (Some err, st)
      | Inr w \<Rightarrow>
          (case DeleteApiKey k ident of
             Some err \<Rightarrow> (Some err, st)
           | None \<Rightarrow>
               (let st1 = st\<lparr>revoked := revoked st @ [ident],
                              rows := (rows st)(ident \<mapsto> w\<lparr>row_deleted := True\<rparr>)\<rparr>
                in case CreateJob k ident JobDelete of
                     Some err \<Rightarrow> (Some err, st1)
                   | None \<Rightarrow> (None, st1\<lparr>ledger := ledger st1 @ [(ident, JobDelete)]\<rparr>))))"

text \<open>
  Claim C6. \<^verbatim>\<open>Find\<close> reports \<^verbatim>\<open>DeletedError\<close> exactly for the ids whose row is
  soft-deleted and \<^verbatim>\<open>NotFoundError\<close> exactly for the ids that have no row, so neither
  is ever reported for the other; and a \<^verbatim>\<open>Delete\<close> that succeeds leaves the id in the
  first case.
\<close>

theorem Find_Deleted_NotFound:
  "(Find st ident = Inl DeletedError \<longleftrightarrow> (\<exists>w. rows st ident = Some w \<and> row_deleted w))
   \<and> (Find st ident = Inl NotFoundError \<longleftrightarrow> rows st ident = None)
   \<and> (\<forall>k st'. Delete k st ident = (None, st') \<longrightarrow> Find st' ident = Inl DeletedError)"
proof (intro conjI allI impI)
  show "Find st ident = Inl DeletedError \<longleftrightarrow> (\<exists>w. rows st ident = Some w \<and> row_deleted w)"
    by (auto simp: Find_def split: option.splits)
  show "Find st ident = Inl NotFoundError \<longleftrightarrow> rows st ident = None"
    by (auto simp: Find_def split: option.splits)
next
  fix k st'
  assume "Delete k st ident = (None, st')"
  then obtain w where "rows st' ident = Some (w\<lparr>row_deleted := True\<rparr>)"
    by (auto simp: Delete_def Let_def split: sum.splits option.splits)
  then show "Find st' ident = Inl DeletedError" by (simp add: Find_def)
qed

theorem Find_Deleted_NotFound_witness:
  "Find (snd (Delete \<lparr>DeleteApiKey = (\<lambda>name. None), CreateJob = (\<lambda>r a. None)\<rparr>
           \<lparr>rows = [''123'' \<mapsto> \<lparr>row_name = ''workspace1'', row_api_key = ''workspace1'',
                                row_deleted = False\<rparr>],
            ledger = [], revoked = []\<rparr> ''123'')) ''123'' = Inl DeletedError
   \<and> Find \<lparr>rows = [''123'' \<mapsto> \<lparr>row_name = ''workspace1'', row_api_key = ''workspace1'',
                                row_deleted = False\<rparr>],
            ledger = [], revoked = []\<rparr> ''invalid-id'' = Inl NotFoundError"
proof -
  let ?k = "\<lparr>DeleteApiKey = (\<lambda>name. None), CreateJob = (\<lambda>r a. None)\<rparr>"
  let ?st = "\<lparr>rows = [''123'' \<mapsto> \<lparr>row_name = ''workspace1'', row_api_key = ''workspace1'',
                                row_deleted = False\<rparr>],
            ledger = [], revoked = []\<rparr>"
  have ok: "fst (Delete ?k ?st ''123'') = None" by (simp add: Delete_def Find_def Let_def)
  then have "Delete ?k ?st ''123'' = (None, snd (Delete ?k ?st ''123''))"
    by (metis prod.collapse)
  with Find_Deleted_NotFound [of "snd (Delete ?k ?st ''123'')" "''123''"]
    Find_Deleted_NotFound [of ?st "''123''"]
  have "Find (snd (Delete ?k ?st ''123'')) ''123'' = Inl DeletedError" by blast
  moreover have "rows ?st ''invalid-id'' = None" by simp
  with Find_Deleted_NotFound [of ?st "''invalid-id''"]
  have "Find ?st ''invalid-id'' = Inl NotFoundError" by blast
  ultimately show ?thesis by simp
qed

end
